theory Spec2Isabelle
  imports Complex_Main "HOL-Library.Multiset" "HOL-Library.Sublist"
begin

section \<open>Board model\<close>

text \<open>
  A node of the canvas document is a dictionary; \<open>filter_main_nodes\<close> and the extent
  computation of \<open>generate_html\<close> index the keys \<open>x\<close>, \<open>y\<close>, \<open>width\<close> and
  \<open>height\<close> unconditionally, so these four numbers are the fields of the record (a
  dictionary lacking one of them is not a node of a canvas document, and indexing it
  raises \<open>KeyError\<close> before anything is computed). A field holds the number written in
  the document, which Python reads as an \<open>int\<close> of any size or as a finite \<open>float\<close>; a
  real number stands for either. The viewer script reads the same four numbers back from
  the rendered boxes, so its node objects have the same shape; its arithmetic on them
  (\<open>Math.sqrt\<close> included) is taken over the real numbers. The float arithmetic of
  \<open>filter_main_nodes\<close> is modelled below with its rounding, its infinities, its
  \<open>NaN\<close> and the exceptions it raises.
\<close>

record node =
  node_id :: string
  node_x :: real
  node_y :: real
  node_width :: real
  node_height :: real

section \<open>Python floats\<close>

text \<open>
  Two exceptions can leave the layout engine. \<open>ValueError\<close> is raised by \<open>min\<close> and
  \<open>max\<close> of an empty sequence. \<open>FloatError\<close> stands for an exception raised by the
  float arithmetic: \<open>OverflowError\<close> when an \<open>int\<close> is too large to become a
  \<open>float\<close>, when the quotient of a true division of \<open>int\<close>s is, and when the result of
  \<open>**\<close> is out of range. A negative base under \<open>** 0.5\<close> is counted as \<open>FloatError\<close>
  as well: Python returns a complex number there, and the next comparison of it
  (\<open>sort\<close>, \<open>\<le>\<close>) raises \<open>TypeError\<close>. Both are caught by \<open>export_to_web\<close>, which
  reports an export error.
\<close>

datatype py_error = ValueError | FloatError

definition and_then :: "py_error + 'a \<Rightarrow> ('a \<Rightarrow> py_error + 'b) \<Rightarrow> py_error + 'b" where
  "and_then m f = (case m of Inl e \<Rightarrow> Inl e | Inr x \<Rightarrow> f x)"

text \<open>A comprehension or generator whose element expression may raise: the first
  exception, in list order, ends it.\<close>

fun map_err :: "('a \<Rightarrow> py_error + 'b) \<Rightarrow> 'a list \<Rightarrow> py_error + 'b list" where
  "map_err f [] = Inr []"
| "map_err f (x # xs) =
     (case f x of
        Inl e \<Rightarrow> Inl e
      | Inr y \<Rightarrow> (case map_err f xs of Inl e \<Rightarrow> Inl e | Inr ys \<Rightarrow> Inr (y # ys)))"

text \<open>
  A Python \<open>float\<close> is an IEEE 754 binary64 value: a finite number \<open>m * 2 ^ e\<close> with
  \<open>\<bar>m\<bar> < 2 ^ 53\<close> and \<open>- 1074 \<le> e \<le> 971\<close> (\<open>is_double\<close>), an infinity or \<open>NaN\<close>. An
  arithmetic result that is such a number is delivered as it is; any other is rounded,
  by the function \<open>r\<close>, and a result of magnitude \<open>2 ^ 1024 - 2 ^ 970\<close> or more (half a
  unit in the last place above the largest finite value) becomes an infinity. Float
  addition, multiplication and division never raise; comparisons with \<open>NaN\<close> are false.
\<close>

datatype pyfloat = Fin real | PInf | NInf | NaN

definition is_double :: "real \<Rightarrow> bool" where
  "is_double x \<longleftrightarrow>
     (\<exists>e \<in> {- 1074 .. 971 :: int}. \<bar>x / 2 powi e\<bar> < 2 ^ 53 \<and> of_int \<lfloor>x / 2 powi e\<rfloor> = x / 2 powi e)"

definition OVF :: real where
  "OVF = 2 ^ 1024 - 2 ^ 970"

definition round_to :: "(real \<Rightarrow> real) \<Rightarrow> real \<Rightarrow> pyfloat" where
  "round_to r x =
     (if OVF \<le> x then PInf
      else if x \<le> - OVF then NInf
      else Fin (if is_double x then x else r x))"

fun fadd :: "(real \<Rightarrow> real) \<Rightarrow> pyfloat \<Rightarrow> pyfloat \<Rightarrow> pyfloat" where
  "fadd r (Fin x) (Fin y) = round_to r (x + y)"
| "fadd r NaN b = NaN"
| "fadd r a NaN = NaN"
| "fadd r PInf NInf = NaN"
| "fadd r NInf PInf = NaN"
| "fadd r PInf b = PInf"
| "fadd r a PInf = PInf"
| "fadd r NInf b = NInf"
| "fadd r a NInf = NInf"

fun fneg :: "pyfloat \<Rightarrow> pyfloat" where
  "fneg (Fin x) = Fin (- x)"
| "fneg PInf = NInf"
| "fneg NInf = PInf"
| "fneg NaN = NaN"

definition fsub :: "(real \<Rightarrow> real) \<Rightarrow> pyfloat \<Rightarrow> pyfloat \<Rightarrow> pyfloat" where
  "fsub r a b = fadd r a (fneg b)"

fun fmul :: "(real \<Rightarrow> real) \<Rightarrow> pyfloat \<Rightarrow> pyfloat \<Rightarrow> pyfloat" where
  "fmul r (Fin x) (Fin y) = round_to r (x * y)"
| "fmul r NaN b = NaN"
| "fmul r a NaN = NaN"
| "fmul r (Fin x) PInf = (if x = 0 then NaN else if 0 < x then PInf else NInf)"
| "fmul r (Fin x) NInf = (if x = 0 then NaN else if 0 < x then NInf else PInf)"
| "fmul r PInf (Fin y) = (if y = 0 then NaN else if 0 < y then PInf else NInf)"
| "fmul r NInf (Fin y) = (if y = 0 then NaN else if 0 < y then NInf else PInf)"
| "fmul r PInf PInf = PInf"
| "fmul r NInf NInf = PInf"
| "fmul r PInf NInf = NInf"
| "fmul r NInf PInf = NInf"

text \<open>Division of a float by \<open>len(...)\<close>, a positive \<open>int\<close>.\<close>

fun fdiv_len :: "(real \<Rightarrow> real) \<Rightarrow> pyfloat \<Rightarrow> nat \<Rightarrow> pyfloat" where
  "fdiv_len r (Fin x) n = round_to r (x / real n)"
| "fdiv_len r a n = a"

fun flt :: "pyfloat \<Rightarrow> pyfloat \<Rightarrow> bool" where
  "flt (Fin x) (Fin y) = (x < y)"
| "flt NaN b = False"
| "flt a NaN = False"
| "flt a NInf = False"
| "flt PInf b = False"
| "flt NInf b = True"
| "flt a PInf = True"

fun fle :: "pyfloat \<Rightarrow> pyfloat \<Rightarrow> bool" where
  "fle (Fin x) (Fin y) = (x \<le> y)"
| "fle NaN b = False"
| "fle a NaN = False"
| "fle NInf b = True"
| "fle a PInf = True"
| "fle a NInf = False"
| "fle PInf b = False"

text \<open>
  \<open>sum\<close> adds the items to \<open>0\<close> from left to right; \<open>sum_loop\<close> does so and records
  whether every partial sum was delivered without rounding.
\<close>

fun exact_add :: "pyfloat \<Rightarrow> pyfloat \<Rightarrow> bool" where
  "exact_add (Fin x) (Fin y) = is_double (x + y)"
| "exact_add a b = True"

fun sum_loop :: "(real \<Rightarrow> real) \<Rightarrow> pyfloat \<Rightarrow> bool \<Rightarrow> pyfloat list \<Rightarrow> pyfloat \<times> bool" where
  "sum_loop r acc exact [] = (acc, exact)"
| "sum_loop r acc exact (x # xs) = sum_loop r (fadd r acc x) (exact \<and> exact_add acc x) xs"

text \<open>
  What the source leaves to the interpreter and the C library is a parameter of the
  model: how an inexact result of \<open>+\<close>, \<open>-\<close>, \<open>*\<close>, \<open>/\<close> or of a conversion is rounded
  (\<open>rnd\<close>); what \<open>sum\<close> returns when a partial sum was rounded (\<open>pf_sum\<close>: CPython up to
  3.11 returns the rounded running total, later versions add a compensation term to
  it); and the results of \<open>x ** 2\<close> and \<open>x ** 0.5\<close> for a finite \<open>x\<close> (\<open>pf_square\<close>,
  \<open>pf_root\<close>: the C function \<open>pow\<close>; \<open>None\<close> when it reports a range error, which
  Python raises as \<open>OverflowError\<close>).
\<close>

record platform =
  rnd :: "real \<Rightarrow> real"
  pf_sum :: "pyfloat list \<Rightarrow> pyfloat"
  pf_square :: "real \<Rightarrow> pyfloat option"
  pf_root :: "real \<Rightarrow> pyfloat option"

text \<open>
  When the running total ends infinite or \<open>NaN\<close>, every version of \<open>sum\<close> returns it
  (the compensation term is dropped when it is not finite); when no partial sum was
  rounded, every version returns the exact total.
\<close>

definition py_sum :: "platform \<Rightarrow> pyfloat list \<Rightarrow> pyfloat" where
  "py_sum pf xs =
     (case sum_loop (rnd pf) (Fin 0) True xs of
        (Fin s, exact) \<Rightarrow> (if exact then Fin s else pf_sum pf xs)
      | (v, exact) \<Rightarrow> v)"

text \<open>
  \<open>to_float\<close> is the conversion of a field to \<open>float\<close> that \<open>node['x'] + ...\<close> performs,
  \<open>half\<close> is \<open>node['width']/2\<close>. Either raises \<open>OverflowError\<close> when its result is out of
  the float range, which only a field holding an \<open>int\<close> can cause (a field that is a
  float is below \<open>OVF\<close> in magnitude).
\<close>

definition to_float :: "platform \<Rightarrow> real \<Rightarrow> py_error + pyfloat" where
  "to_float pf x = (if OVF \<le> \<bar>x\<bar> then Inl FloatError else Inr (round_to (rnd pf) x))"

definition half :: "platform \<Rightarrow> real \<Rightarrow> py_error + pyfloat" where
  "half pf w = (if OVF \<le> \<bar>w / 2\<bar> then Inl FloatError else Inr (round_to (rnd pf) (w / 2)))"

text \<open>
  \<open>v ** 2\<close> and \<open>v ** 0.5\<close> on floats: \<open>NaN\<close> gives \<open>NaN\<close>, either infinity gives
  \<open>+inf\<close>; a finite base whose square is \<open>2 ^ 1024\<close> or more raises \<open>OverflowError\<close>
  whatever the C library.
\<close>

definition pow_result :: "pyfloat option \<Rightarrow> py_error + pyfloat" where
  "pow_result v = (case v of None \<Rightarrow> Inl FloatError | Some y \<Rightarrow> Inr y)"

fun pow2 :: "platform \<Rightarrow> pyfloat \<Rightarrow> py_error + pyfloat" where
  "pow2 pf NaN = Inr NaN"
| "pow2 pf PInf = Inr PInf"
| "pow2 pf NInf = Inr PInf"
| "pow2 pf (Fin x) = (if 2 ^ 1024 \<le> x * x then Inl FloatError else pow_result (pf_square pf x))"

fun pow_half :: "platform \<Rightarrow> pyfloat \<Rightarrow> py_error + pyfloat" where
  "pow_half pf NaN = Inr NaN"
| "pow_half pf PInf = Inr PInf"
| "pow_half pf NInf = Inr PInf"
| "pow_half pf (Fin x) = (if x < 0 then Inl FloatError else pow_result (pf_root pf x))"

text \<open>
  \<open>list.sort(key=...)\<close> is stable and compares keys with \<open><\<close>. On keys without \<open>NaN\<close>
  the comparison is a total preorder and every stable sort returns the same list;
  \<open>py_sort\<close> is the stable insertion sort. (With a \<open>NaN\<close> key the order Python leaves
  is not modelled; \<open>filter_main_nodes\<close> then returns the same result whatever the
  order, see \<open>main_of_NaN\<close>.)
\<close>

fun insert_key :: "('a \<Rightarrow> pyfloat) \<Rightarrow> 'a \<Rightarrow> 'a list \<Rightarrow> 'a list" where
  "insert_key k x [] = [x]"
| "insert_key k x (y # ys) = (if flt (k y) (k x) then y # insert_key k x ys else x # y # ys)"

definition py_sort :: "('a \<Rightarrow> pyfloat) \<Rightarrow> 'a list \<Rightarrow> 'a list" where
  "py_sort k xs = foldr (insert_key k) xs []"

section \<open>Layout engine: \<open>filter_main_nodes\<close>\<close>

text \<open>
  \<open>center pf pos len\<close> is the expression \<open>node['x'] + node['width']/2\<close> (and the same
  for \<open>y\<close> and \<open>height\<close>); \<open>center_x\<close> and \<open>center_y\<close> are the two
  \<open>sum(...) / len(nodes)\<close> expressions; \<open>node_distance\<close> is the body of the loop that
  fills \<open>distances\<close>; \<open>main_of\<close> is the branch \<open>len(distances) > 2\<close>, applied to the
  sorted list of \<open>(distance, node)\<close> pairs. The \<open>print\<close> calls are left out.
\<close>

definition center :: "platform \<Rightarrow> real \<Rightarrow> real \<Rightarrow> py_error + pyfloat" where
  "center pf pos len =
     and_then (half pf len) (\<lambda>h. and_then (to_float pf pos) (\<lambda>p. Inr (fadd (rnd pf) p h)))"

definition center_x :: "platform \<Rightarrow> node list \<Rightarrow> py_error + pyfloat" where
  "center_x pf nodes =
     and_then (map_err (\<lambda>n. center pf (node_x n) (node_width n)) nodes)
       (\<lambda>cs. Inr (fdiv_len (rnd pf) (py_sum pf cs) (length nodes)))"

definition center_y :: "platform \<Rightarrow> node list \<Rightarrow> py_error + pyfloat" where
  "center_y pf nodes =
     and_then (map_err (\<lambda>n. center pf (node_y n) (node_height n)) nodes)
       (\<lambda>cs. Inr (fdiv_len (rnd pf) (py_sum pf cs) (length nodes)))"

definition node_distance :: "platform \<Rightarrow> pyfloat \<Rightarrow> pyfloat \<Rightarrow> node \<Rightarrow> py_error + pyfloat" where
  "node_distance pf cx cy n =
     and_then (center pf (node_x n) (node_width n)) (\<lambda>node_center_x.
     and_then (center pf (node_y n) (node_height n)) (\<lambda>node_center_y.
     and_then (pow2 pf (fsub (rnd pf) node_center_x cx)) (\<lambda>sx.
     and_then (pow2 pf (fsub (rnd pf) node_center_y cy)) (\<lambda>sy.
     pow_half pf (fadd (rnd pf) sx sy)))))"

definition main_of :: "platform \<Rightarrow> (pyfloat \<times> node) list \<Rightarrow> py_error + node list" where
  "main_of pf distances =
     (let mean_distance = fdiv_len (rnd pf) (py_sum pf (map fst distances)) (length distances)
      in and_then (map_err (\<lambda>d. pow2 pf (fsub (rnd pf) (fst d) mean_distance)) distances) (\<lambda>sq.
         let variance = fdiv_len (rnd pf) (py_sum pf sq) (length distances)
         in and_then (pow_half pf variance) (\<lambda>std_deviation.
            let threshold = fadd (rnd pf) mean_distance (fmul (rnd pf) (Fin (3 / 2)) std_deviation)
            in Inr (map snd (filter (\<lambda>d. fle (fst d) threshold) distances)))))"

definition filter_main_nodes :: "platform \<Rightarrow> node list \<Rightarrow> py_error + node list" where
  "filter_main_nodes pf nodes =
     (if length nodes \<le> 1 then Inr nodes
      else
        and_then (center_x pf nodes) (\<lambda>cx.
        and_then (center_y pf nodes) (\<lambda>cy.
        and_then (map_err (\<lambda>n. and_then (node_distance pf cx cy n) (\<lambda>d. Inr (d, n))) nodes) (\<lambda>ds.
        let distances = py_sort fst ds
        in if length distances > 2 then main_of pf distances else Inr nodes))))"

section \<open>Layout engine: the canvas extent of \<open>generate_html\<close>\<close>

text \<open>
  Python's \<open>min\<close> and \<open>max\<close> of an empty sequence raise \<open>ValueError\<close>; the four
  calls over one node list are gathered in \<open>bounds\<close>, which returns
  \<open>(min_x, max_x, min_y, max_y)\<close>. An exception of \<open>filter_main_nodes\<close> leaves
  \<open>generate_html\<close> before any extent is computed. The arithmetic on the four bounds is
  taken over the real numbers.
\<close>

record extent =
  canvas_width :: real
  canvas_height :: real
  offset_x :: real
  offset_y :: real

definition bounds :: "node list \<Rightarrow> py_error + (real \<times> real \<times> real \<times> real)" where
  "bounds ns =
     (case ns of
        [] \<Rightarrow> Inl ValueError
      | n # rest \<Rightarrow>
          Inr (fold min (map node_x rest) (node_x n),
               fold max (map (\<lambda>m. node_x m + node_width m) rest) (node_x n + node_width n),
               fold min (map node_y rest) (node_y n),
               fold max (map (\<lambda>m. node_y m + node_height m) rest) (node_y n + node_height n)))"

definition compute_extent :: "platform \<Rightarrow> node list \<Rightarrow> py_error + extent" where
  "compute_extent pf nodes =
     (if nodes \<noteq> [] then
        and_then (filter_main_nodes pf nodes) (\<lambda>main_nodes.
        and_then (if main_nodes \<noteq> [] then bounds main_nodes else bounds nodes)
          (\<lambda>(min_x, max_x, min_y, max_y).
             let margin = 200;
                 title_margin = 100;
                 min_canvas_width = 2000;
                 min_canvas_height = 1500
             in Inr \<lparr>canvas_width = max (max_x - min_x + margin * 2) min_canvas_width,
                     canvas_height = max (max_y - min_y + margin * 2 + title_margin) min_canvas_height,
                     offset_x = - min_x + margin,
                     offset_y = - min_y + margin + title_margin\<rparr>))
      else Inr \<lparr>canvas_width = 2000, canvas_height = 1500, offset_x = 0, offset_y = 0\<rparr>)"

text \<open>
  The wording of the specification, for comparison with the code, in the same float
  arithmetic: the centre of a node, the centroid of the node centres (the arithmetic
  mean of each coordinate), the Euclidean distance of a node's centre from a point, the
  mean and the population standard deviation of a list of distances, and the threshold
  \<open>mean + 1.5 * stddev\<close>.
\<close>

definition spec_mean :: "platform \<Rightarrow> pyfloat list \<Rightarrow> pyfloat" where
  "spec_mean pf xs = fdiv_len (rnd pf) (py_sum pf xs) (length xs)"

definition spec_center :: "platform \<Rightarrow> node \<Rightarrow> py_error + (pyfloat \<times> pyfloat)" where
  "spec_center pf n =
     and_then (center pf (node_x n) (node_width n)) (\<lambda>a.
     and_then (center pf (node_y n) (node_height n)) (\<lambda>b. Inr (a, b)))"

definition spec_centroid :: "platform \<Rightarrow> node list \<Rightarrow> py_error + (pyfloat \<times> pyfloat)" where
  "spec_centroid pf nodes =
     and_then (map_err (spec_center pf) nodes) (\<lambda>cs.
     Inr (spec_mean pf (map fst cs), spec_mean pf (map snd cs)))"

definition spec_euclid :: "platform \<Rightarrow> pyfloat \<times> pyfloat \<Rightarrow> pyfloat \<times> pyfloat \<Rightarrow> py_error + pyfloat" where
  "spec_euclid pf p c =
     and_then (pow2 pf (fsub (rnd pf) (fst p) (fst c))) (\<lambda>sx.
     and_then (pow2 pf (fsub (rnd pf) (snd p) (snd c))) (\<lambda>sy.
     pow_half pf (fadd (rnd pf) sx sy)))"

definition spec_distance :: "platform \<Rightarrow> pyfloat \<times> pyfloat \<Rightarrow> node \<Rightarrow> py_error + pyfloat" where
  "spec_distance pf c n = and_then (spec_center pf n) (\<lambda>p. spec_euclid pf p c)"

definition spec_stddev :: "platform \<Rightarrow> pyfloat list \<Rightarrow> py_error + pyfloat" where
  "spec_stddev pf xs =
     and_then (map_err (\<lambda>d. pow2 pf (fsub (rnd pf) d (spec_mean pf xs))) xs) (\<lambda>sq.
     pow_half pf (spec_mean pf sq))"

definition spec_threshold :: "platform \<Rightarrow> pyfloat list \<Rightarrow> py_error + pyfloat" where
  "spec_threshold pf xs =
     and_then (spec_stddev pf xs) (\<lambda>s.
     Inr (fadd (rnd pf) (spec_mean pf xs) (fmul (rnd pf) (Fin (3 / 2)) s)))"

text \<open>The bounding box of a node list, as the specification words it: the least left and
  top edge, the greatest right and bottom edge.\<close>

definition bbox_min_x :: "node list \<Rightarrow> real" where
  "bbox_min_x ns = Min (node_x ` set ns)"

definition bbox_max_x :: "node list \<Rightarrow> real" where
  "bbox_max_x ns = Max ((\<lambda>n. node_x n + node_width n) ` set ns)"

definition bbox_min_y :: "node list \<Rightarrow> real" where
  "bbox_min_y ns = Min (node_y ` set ns)"

definition bbox_max_y :: "node list \<Rightarrow> real" where
  "bbox_max_y ns = Max ((\<lambda>n. node_y n + node_height n) ` set ns)"

section \<open>One platform: round to nearest, ties to even\<close>

text \<open>
  The statements about single boards below are evaluated on \<open>binary64\<close>: inexact
  results are rounded to the nearest float, ties to the one with an even significand
  (\<open>rne\<close>; \<open>ulp_from\<close> finds the exponent of the unit in the last place, the least
  \<open>e \<ge> - 1074\<close> with \<open>\<bar>x\<bar> < 2 ^ 53 * 2 ^ e\<close>); \<open>sum\<close> returns the running total;
  \<open>**\<close> returns the correctly rounded power and reports a range error when that is not
  finite. On these boards every intermediate result is a float already, so that nothing
  is rounded.
\<close>

fun ulp_from :: "nat \<Rightarrow> int \<Rightarrow> real \<Rightarrow> int" where
  "ulp_from 0 e x = e"
| "ulp_from (Suc k) e x = (if \<bar>x\<bar> < 2 ^ 53 * 2 powi e then e else ulp_from k (e + 1) x)"

definition rne :: "real \<Rightarrow> real" where
  "rne x =
     (let e = ulp_from 2045 (- 1074) x;
          y = x / 2 powi e;
          q = \<lfloor>y\<rfloor>
      in (if y - of_int q < 1 / 2 \<or> (y - of_int q = 1 / 2 \<and> even q)
          then of_int q else of_int q + 1) * 2 powi e)"

definition finite_only :: "pyfloat \<Rightarrow> pyfloat option" where
  "finite_only v = (case v of Fin x \<Rightarrow> Some (Fin x) | _ \<Rightarrow> None)"

definition binary64 :: platform where
  "binary64 =
     \<lparr>rnd = rne,
      pf_sum = (\<lambda>xs. fst (sum_loop rne (Fin 0) True xs)),
      pf_square = (\<lambda>x. finite_only (round_to rne (x * x))),
      pf_root = (\<lambda>x. finite_only (round_to rne (sqrt x)))\<rparr>"


section \<open>Edge router: the viewer script\<close>

text \<open>
  The script reads \<open>edge.fromSide || 'right'\<close>: an absent or empty side is replaced by
  the default. A side is kept as a string, since \<open>calculateAnchorPoint\<close> and
  \<open>createPerpendicularControlPoints\<close> have a \<open>default\<close> case for every other string.
\<close>

record edge =
  edge_id :: string
  edge_fromNode :: string
  edge_toNode :: string
  edge_fromSide :: "string option"
  edge_toSide :: "string option"
  edge_label :: "string option"

type_synonym point = "real \<times> real"

definition or_default :: "string option \<Rightarrow> string \<Rightarrow> string" where
  "or_default v d = (case v of None \<Rightarrow> d | Some s \<Rightarrow> (if s = [] then d else s))"

definition calculateAnchorPoint :: "node \<Rightarrow> node \<Rightarrow> string \<Rightarrow> bool \<Rightarrow> point" where
  "calculateAnchorPoint node targetNode side isArrival =
     (let centerX = node_x node + node_width node / 2;
          centerY = node_y node + node_height node / 2;
          offset = (if isArrival then 30 else 0)
      in if side = ''top'' then (centerX, node_y node - offset)
         else if side = ''bottom'' then (centerX, node_y node + node_height node + offset)
         else if side = ''left'' then (node_x node - offset, centerY)
         else if side = ''right'' then (node_x node + node_width node + offset, centerY)
         else
           (let dx = node_x targetNode - node_x node;
                dy = node_y targetNode - node_y node
            in if \<bar>dx\<bar> > \<bar>dy\<bar> then
                 (if dx > 0 then (node_x node + node_width node + offset, centerY)
                  else (node_x node - offset, centerY))
               else
                 (if dy > 0 then (centerX, node_y node + node_height node + offset)
                  else (centerX, node_y node - offset))))"

definition control_of :: "point \<Rightarrow> string \<Rightarrow> point" where
  "control_of anchor side =
     (let offset = 80
      in if side = ''top'' then (fst anchor, snd anchor - offset)
         else if side = ''bottom'' then (fst anchor, snd anchor + offset)
         else if side = ''left'' then (fst anchor - offset, snd anchor)
         else if side = ''right'' then (fst anchor + offset, snd anchor)
         else anchor)"

definition createPerpendicularControlPoints ::
    "point \<Rightarrow> point \<Rightarrow> string \<Rightarrow> string \<Rightarrow> point \<times> point" where
  "createPerpendicularControlPoints fromAnchor toAnchor fromSide toSide =
     (control_of fromAnchor fromSide, control_of toAnchor toSide)"

definition adjustArrowEndPoint :: "point \<Rightarrow> string \<Rightarrow> point" where
  "adjustArrowEndPoint toAnchor toSide = toAnchor"

text \<open>
  \<open>Math.random()\<close> reads a source of numbers that is not an argument of the script. The
  source is made explicit: the sequence of values the calls will return, from which every
  call takes the first and leaves the rest.
\<close>

type_synonym rng = "nat \<Rightarrow> real"

definition Math_random :: "rng \<Rightarrow> real \<times> rng" where
  "Math_random r = (r 0, \<lambda>k. r (Suc k))"

definition random_direction :: "rng \<Rightarrow> real \<times> rng" where
  "random_direction r = (case Math_random r of (v, r') \<Rightarrow> (if v > 0.5 then 1 else - 1, r'))"

definition choose_direction :: "string \<Rightarrow> string \<Rightarrow> rng \<Rightarrow> real \<times> rng" where
  "choose_direction fromSide toSide r =
     (if fromSide = toSide then
        (if fromSide = ''left'' \<and> toSide = ''left'' then (- 1, r)
         else if fromSide = ''right'' \<and> toSide = ''right'' then (1, r)
         else if fromSide = ''top'' \<and> toSide = ''top'' then (- 1, r)
         else if fromSide = ''bottom'' \<and> toSide = ''bottom'' then (1, r)
         else random_direction r)
      else random_direction r)"

text \<open>
  The attribute \<open>d\<close> of the path element is \<open>M p0 L p1 L p2 L p3\<close> or
  \<open>M p0 C p1 p2 p3\<close>; the datatype keeps the command and the four points instead of the
  printed string. \<open>drawEdge\<close> returns what it appends to the edge layer (nothing when a
  node is missing), the point it prints as \<open>Central control point\<close> on the console (in
  the curve case), and the random source after its calls.
\<close>

datatype path_d = Polyline point point point point | Cubic point point point point

record drawn_edge =
  drawn_path :: path_d
  labelX :: real
  labelY :: real
  label_text :: "string option"

definition truthy_label :: "string option \<Rightarrow> string option" where
  "truthy_label l = (case l of None \<Rightarrow> None | Some s \<Rightarrow> (if s = [] then None else Some s))"

definition drawEdge :: "node list \<Rightarrow> edge \<Rightarrow> rng \<Rightarrow> drawn_edge option \<times> point option \<times> rng" where
  "drawEdge nodes edge r =
     (case find (\<lambda>n. node_id n = edge_fromNode edge) nodes of
        None \<Rightarrow> (None, None, r)
      | Some fromNode \<Rightarrow>
     (case find (\<lambda>n. node_id n = edge_toNode edge) nodes of
        None \<Rightarrow> (None, None, r)
      | Some toNode \<Rightarrow>
         (let fromAnchor = calculateAnchorPoint fromNode toNode (or_default (edge_fromSide edge) ''right'') False;
              toAnchor = calculateAnchorPoint toNode fromNode (or_default (edge_toSide edge) ''left'') True;
              midX = (fst fromAnchor + fst toAnchor) / 2;
              midY = (snd fromAnchor + snd toAnchor) / 2;
              dx = fst toAnchor - fst fromAnchor;
              dy = snd toAnchor - snd fromAnchor;
              distance = sqrt (dx * dx + dy * dy);
              baseOffset = min (distance * 0.4) 60
          in case Math_random r of (u, r1) \<Rightarrow>
         (let randomFactor = 0.8 + u * 0.4;
              offset = baseOffset * randomFactor;
              isHorizontalPerfect = (\<bar>snd fromAnchor - snd toAnchor\<bar> < 1);
              isHorizontalConnection = (\<bar>dx\<bar> > \<bar>dy\<bar> * 3);
              isVerticalPerfect = (\<bar>fst fromAnchor - fst toAnchor\<bar> < 1);
              isVerticalConnection = (\<bar>dy\<bar> > \<bar>dx\<bar> * 3);
              fromSide = or_default (edge_fromSide edge) ''right'';
              toSide = or_default (edge_toSide edge) ''left'';
              sameSideConnection = (fromSide = toSide)
          in if isHorizontalPerfect \<and> isHorizontalConnection \<and> \<not> sameSideConnection then
               (let controlPoints = createPerpendicularControlPoints fromAnchor toAnchor fromSide toSide
                in (Some \<lparr>drawn_path = Polyline fromAnchor (fst controlPoints) (snd controlPoints) toAnchor,
                          labelX = (fst fromAnchor + fst toAnchor) / 2,
                          labelY = snd fromAnchor,
                          label_text = truthy_label (edge_label edge)\<rparr>, None, r1))
             else if isVerticalPerfect \<and> isVerticalConnection \<and> \<not> sameSideConnection then
               (let controlPoints = createPerpendicularControlPoints fromAnchor toAnchor fromSide toSide
                in (Some \<lparr>drawn_path = Polyline fromAnchor (fst controlPoints) (snd controlPoints) toAnchor,
                          labelX = fst fromAnchor,
                          labelY = (snd fromAnchor + snd toAnchor) / 2,
                          label_text = truthy_label (edge_label edge)\<rparr>, None, r1))
             else
               (let controlPoints = createPerpendicularControlPoints fromAnchor toAnchor fromSide toSide
                in case choose_direction fromSide toSide r1 of (direction, r2) \<Rightarrow>
               (let offset' = (if sameSideConnection then min (offset * 1.2) 40 else offset);
                    perpX = (if \<bar>dx\<bar> > \<bar>dy\<bar> then 0 else direction * offset');
                    perpY = (if \<bar>dx\<bar> > \<bar>dy\<bar> then direction * offset' else 0);
                    midControlX = midX + perpX;
                    midControlY = midY + perpY;
                    adjustedEndPoint = adjustArrowEndPoint toAnchor toSide;
                    t = 0.5;
                    oneMinusT = 1 - t;
                    oneMinusTSquared = oneMinusT * oneMinusT;
                    oneMinusTCubed = oneMinusTSquared * oneMinusT;
                    tSquared = t * t;
                    tCubed = tSquared * t
                in (Some \<lparr>drawn_path = Cubic fromAnchor (fst controlPoints) (snd controlPoints) adjustedEndPoint,
                          labelX = oneMinusTCubed * fst fromAnchor
                                 + 3 * oneMinusTSquared * t * fst (fst controlPoints)
                                 + 3 * oneMinusT * tSquared * fst (snd controlPoints)
                                 + tCubed * fst adjustedEndPoint,
                          labelY = oneMinusTCubed * snd fromAnchor
                                 + 3 * oneMinusTSquared * t * snd (fst controlPoints)
                                 + 3 * oneMinusT * tSquared * snd (snd controlPoints)
                                 + tCubed * snd adjustedEndPoint,
                          label_text = truthy_label (edge_label edge)\<rparr>,
                    Some (midControlX, midControlY), r2)))))))"

text \<open>\<open>drawEdges\<close>: the \<open>forEach\<close> over the edges, with the children of the edge layer
  in the order they are appended.\<close>

fun drawEdges :: "node list \<Rightarrow> edge list \<Rightarrow> rng \<Rightarrow> drawn_edge list \<times> rng" where
  "drawEdges nodes [] r = ([], r)"
| "drawEdges nodes (e # es) r =
     (case drawEdge nodes e r of
        (d, logged, r') \<Rightarrow>
          (case drawEdges nodes es r' of
             (ds, r'') \<Rightarrow> ((case d of None \<Rightarrow> [] | Some x \<Rightarrow> [x]) @ ds, r'')))"

text \<open>
  The wording of the specification, for comparison: the point at parameter \<open>t\<close> of the
  cubic Bezier curve with control points \<open>p0 p1 p2 p3\<close>, in the Bernstein basis, and the
  midpoint of the chord from \<open>p0\<close> to \<open>p3\<close>.
\<close>

definition bernstein :: "real \<Rightarrow> real \<Rightarrow> real \<Rightarrow> real \<Rightarrow> real \<Rightarrow> real" where
  "bernstein t a b c d = (1 - t)^3 * a + 3 * (1 - t)\<^sup>2 * t * b + 3 * (1 - t) * t\<^sup>2 * c + t^3 * d"

definition bezier_point :: "path_d \<Rightarrow> real \<Rightarrow> point option" where
  "bezier_point p t =
     (case p of
        Cubic p0 p1 p2 p3 \<Rightarrow>
          Some (bernstein t (fst p0) (fst p1) (fst p2) (fst p3),
                bernstein t (snd p0) (snd p1) (snd p2) (snd p3))
      | Polyline p0 p1 p2 p3 \<Rightarrow> None)"

definition chord_midpoint :: "point \<Rightarrow> point \<Rightarrow> point" where
  "chord_midpoint p q = ((fst p + fst q) / 2, (snd p + snd q) / 2)"

section \<open>Markup renderer: strings and regular expressions\<close>

text \<open>
  A string is the text in UTF-8, one \<open>char\<close> per byte. Every delimiter the renderer
  looks for is an ASCII character, and no byte of a longer UTF-8 sequence is one, so a
  scan over bytes finds the delimiters where a scan over code points does. \<open>is_space\<close>
  is \<open>str.isspace\<close> (and the class \<open>\s\<close>) on ASCII; whitespace outside ASCII is not
  recognised by the model. \<open>is_digit\<close> is the class \<open>\d\<close> on ASCII.
\<close>

definition NL :: char where
  "NL = CHR 0x0A"

definition is_space :: "char \<Rightarrow> bool" where
  "is_space c \<longleftrightarrow> c \<in> set [CHR 0x09, CHR 0x0A, CHR 0x0B, CHR 0x0C, CHR 0x0D,
                             CHR 0x1C, CHR 0x1D, CHR 0x1E, CHR 0x1F, CHR 0x20]"

definition is_digit :: "char \<Rightarrow> bool" where
  "is_digit c \<longleftrightarrow> c \<in> set ''0123456789''"

definition startswith :: "string \<Rightarrow> string \<Rightarrow> bool" where
  "startswith s p \<longleftrightarrow> take (length p) s = p"

definition strip :: "string \<Rightarrow> string" where
  "strip s = rev (dropWhile is_space (rev (dropWhile is_space s)))"

text \<open>\<open>find_sub p s\<close> is \<open>s.find(p)\<close>: the index of the first occurrence, if any.\<close>

fun find_sub :: "string \<Rightarrow> string \<Rightarrow> nat option" where
  "find_sub p [] = (if p = [] then Some 0 else None)"
| "find_sub p (c # cs) =
     (if startswith (c # cs) p then Some 0 else map_option Suc (find_sub p cs))"

text \<open>\<open>split_from sep cur s\<close> is \<open>s.split(sep)\<close> for a non-empty separator, with the
  piece read so far in \<open>cur\<close>; \<open>py_join\<close> is \<open>sep.join(xs)\<close>.\<close>

fun split_from :: "string \<Rightarrow> string \<Rightarrow> string \<Rightarrow> string list" where
  "split_from sep cur [] = [cur]"
| "split_from sep cur (c # cs) =
     (if sep \<noteq> [] \<and> startswith (c # cs) sep
      then cur # split_from sep [] (drop (length sep - 1) cs)
      else split_from sep (cur @ [c]) cs)"

definition py_split :: "string \<Rightarrow> string \<Rightarrow> string list" where
  "py_split s sep = split_from sep [] s"

fun py_join :: "string \<Rightarrow> string list \<Rightarrow> string" where
  "py_join sep [] = []"
| "py_join sep [x] = x"
| "py_join sep (x # y # ys) = x @ sep @ py_join sep (y # ys)"

text \<open>
  \<open>re_sub m s\<close> is \<open>re.sub(pattern, repl, s)\<close> for a pattern that matches no empty
  string: the scan goes from left to right, and \<open>m\<close> tells for the text from a position
  on whether the pattern matches there, with the replacement and the length of the match
  less one. A match is replaced and the scan goes on behind it; without a match the
  character is kept.
\<close>

fun re_sub :: "(string \<Rightarrow> (string \<times> nat) option) \<Rightarrow> string \<Rightarrow> string" where
  "re_sub m [] = []"
| "re_sub m (c # cs) =
     (case m (c # cs) of
        None \<Rightarrow> c # re_sub m cs
      | Some (repl, k) \<Rightarrow> repl @ re_sub m (drop k cs))"

text \<open>The pattern of a fenced region: three backticks, the shortest text up to the next
  three backticks (group 1, line breaks included), three backticks.\<close>

definition fence :: string where
  "fence = [CHR 0x60, CHR 0x60, CHR 0x60]"

definition m_fence :: "(string \<Rightarrow> string) \<Rightarrow> string \<Rightarrow> (string \<times> nat) option" where
  "m_fence repl s =
     (if startswith s fence then
        (case find_sub fence (drop 3 s) of
           None \<Rightarrow> None
         | Some n \<Rightarrow> Some (repl (take n (drop 3 s)), n + 5))
      else None)"

text \<open>The patterns \<open>\*\*([^*]+)\*\*\<close> and \<open>\*([^*]+)\*\<close>: group 1 is the longest run
  without an asterisk, which must not be empty and must be followed by the closing
  delimiter.\<close>

definition m_bold :: "string \<Rightarrow> (string \<times> nat) option" where
  "m_bold s =
     (if startswith s ''**'' then
        (let body = takeWhile (\<lambda>c. c \<noteq> CHR ''*'') (drop 2 s);
             rest = dropWhile (\<lambda>c. c \<noteq> CHR ''*'') (drop 2 s)
         in if body \<noteq> [] \<and> startswith rest ''**''
            then Some (''<strong>'' @ body @ ''</strong>'', length body + 3)
            else None)
      else None)"

definition m_italic :: "string \<Rightarrow> (string \<times> nat) option" where
  "m_italic s =
     (if startswith s ''*'' then
        (let body = takeWhile (\<lambda>c. c \<noteq> CHR ''*'') (drop 1 s);
             rest = dropWhile (\<lambda>c. c \<noteq> CHR ''*'') (drop 1 s)
         in if body \<noteq> [] \<and> startswith rest ''*''
            then Some (''<em>'' @ body @ ''</em>'', length body + 1)
            else None)
      else None)"

text \<open>The pattern \<open>\[([^\]]+)\]\(([^)]+)\)\<close> with the replacement
  \<open><a href="\2" target="_blank">\1</a>\<close>.\<close>

definition m_link :: "string \<Rightarrow> (string \<times> nat) option" where
  "m_link s =
     (if startswith s ''['' then
        (let txt = takeWhile (\<lambda>c. c \<noteq> CHR '']'') (drop 1 s);
             r1 = dropWhile (\<lambda>c. c \<noteq> CHR '']'') (drop 1 s)
         in if txt \<noteq> [] \<and> startswith r1 ''](''
            then
              (let url = takeWhile (\<lambda>c. c \<noteq> CHR '')'') (drop 2 r1);
                   r2 = dropWhile (\<lambda>c. c \<noteq> CHR '')'') (drop 2 r1)
               in if url \<noteq> [] \<and> startswith r2 '')''
                  then Some (''<a href='' @ [CHR 0x22] @ url @ [CHR 0x22] @ '' target=''
                             @ [CHR 0x22] @ ''_blank'' @ [CHR 0x22] @ ''>'' @ txt @ ''</a>'',
                             length txt + length url + 3)
                  else None)
            else None)
      else None)"

text \<open>The pattern \<open>\n\s*\n\<close>: a line break, then whitespace up to the last line
  break of the whitespace run that follows.\<close>

definition m_parbreak :: "string \<Rightarrow> (string \<times> nat) option" where
  "m_parbreak s =
     (if startswith s [NL] then
        (let ws = takeWhile is_space (drop 1 s);
             n = length (dropWhile (\<lambda>c. c \<noteq> NL) (rev ws))
         in if n = 0 then None else Some (''</p><p>'', n))
      else None)"

text \<open>The pattern \<open><p>\s*</p>\<close>, replaced by the empty string.\<close>

definition m_empty_par :: "string \<Rightarrow> (string \<times> nat) option" where
  "m_empty_par s =
     (if startswith s ''<p>'' then
        (let ws = takeWhile is_space (drop 3 s);
             rest = dropWhile is_space (drop 3 s)
         in if startswith rest ''</p>'' then Some ([], length ws + 6) else None)
      else None)"

definition m_newline :: "string \<Rightarrow> (string \<times> nat) option" where
  "m_newline s = (if startswith s [NL] then Some (''<br>'', 0) else None)"

text \<open>
  The tail \<open>\s+(.+?)</p>\<close> of the two list-item patterns. \<open>lazy_dot s\<close> is the length
  of the shortest non-empty text without a line break at the start of \<open>s\<close> that
  \<open></p>\<close> follows. The whitespace is matched greedily and given back one character at a
  time: \<open>ws_then_body j s\<close> tries \<open>j\<close> whitespace characters, then \<open>j - 1\<close>, down to
  one, and returns the first split for which the rest matches.
\<close>

fun lazy_dot :: "string \<Rightarrow> nat option" where
  "lazy_dot [] = None"
| "lazy_dot (c # cs) =
     (if c = NL then None
      else if startswith cs ''</p>'' then Some 1
      else map_option Suc (lazy_dot cs))"

fun ws_then_body :: "nat \<Rightarrow> string \<Rightarrow> (nat \<times> nat) option" where
  "ws_then_body 0 s = None"
| "ws_then_body (Suc j) s =
     (case lazy_dot (drop (Suc j) s) of
        Some b \<Rightarrow> Some (Suc j, b)
      | None \<Rightarrow> ws_then_body j s)"

text \<open>The pattern \<open><p>(\d+)\.\s+(.+?)</p>\<close> with the replacement \<open><li>\2</li>\<close>.\<close>

definition m_li_ordered :: "string \<Rightarrow> (string \<times> nat) option" where
  "m_li_ordered s =
     (if startswith s ''<p>'' then
        (let ds = takeWhile is_digit (drop 3 s);
             r1 = dropWhile is_digit (drop 3 s)
         in if ds \<noteq> [] \<and> startswith r1 ''.''
            then
              (case ws_then_body (length (takeWhile is_space (drop 1 r1))) (drop 1 r1) of
                 None \<Rightarrow> None
               | Some (j, b) \<Rightarrow>
                   Some (''<li>'' @ take b (drop j (drop 1 r1)) @ ''</li>'',
                         length ds + j + b + 7))
            else None)
      else None)"

text \<open>The pattern \<open><p>[-*]\s+(.+?)</p>\<close> with the replacement \<open><li>\1</li>\<close>.\<close>

definition m_li_bullet :: "string \<Rightarrow> (string \<times> nat) option" where
  "m_li_bullet s =
     (if startswith s ''<p>-'' \<or> startswith s ''<p>*'' then
        (case ws_then_body (length (takeWhile is_space (drop 4 s))) (drop 4 s) of
           None \<Rightarrow> None
         | Some (j, b) \<Rightarrow> Some (''<li>'' @ take b (drop j (drop 4 s)) @ ''</li>'', j + b + 7))
      else None)"

section \<open>Markup renderer: the pipeline of \<open>generate_html\<close>\<close>

text \<open>\<open>replace_code_block\<close> is the callback of \<open>clean_content_after_code\<close>.\<close>

definition replace_code_block :: "string \<Rightarrow> string" where
  "replace_code_block code_content =
     (let lines = py_split code_content [NL]
      in if length lines > 1
         then fence @ [NL] @ py_join [NL] (tl lines) @ [NL] @ fence
         else fence @ [NL] @ fence)"

definition clean_content_after_code :: "string \<Rightarrow> string" where
  "clean_content_after_code content =
     (if content = [] then content else re_sub (m_fence replace_code_block) content)"

text \<open>
  The markup \<open>add_copy_button\<close> puts around the code: the text of the source's template
  before and after \<open>{clean_code}\<close>. The characters outside ASCII are the glyphs of the
  button (U+2BBB, U+2705, U+274C) and the letter e with acute accent.
\<close>

definition dq :: string where "dq = [CHR 0x22]"
definition sq :: string where "sq = [CHR 0x27]"
definition glyph_copy :: string where "glyph_copy = [CHR 0xE2, CHR 0xAE, CHR 0xBB]"
definition glyph_done :: string where "glyph_done = [CHR 0xE2, CHR 0x9C, CHR 0x85]"
definition glyph_failed :: string where "glyph_failed = [CHR 0xE2, CHR 0x9D, CHR 0x8C]"
definition e_acute :: string where "e_acute = [CHR 0xC3, CHR 0xA9]"

definition code_block_open :: string where
  "code_block_open =
     ''<pre class='' @ dq @ ''code-block'' @ dq @ '' style='' @ dq
     @ ''position: relative; margin-top: 0; padding: 8px 8px 8px 8px;'' @ dq
     @ ''><button class='' @ dq @ ''copy-button'' @ dq @ '' onclick='' @ dq
     @ ''const codeContent = this.parentElement.textContent.replace('' @ sq @ glyph_copy @ sq
     @ '', '' @ sq @ sq
     @ '').trim(); navigator.clipboard.writeText(codeContent).then(() => {this.textContent = ''
     @ sq @ glyph_done @ '' Copi'' @ e_acute @ '' !'' @ sq
     @ ''; this.style.background = '' @ sq @ ''#4caf50'' @ sq
     @ ''; setTimeout(() => {this.textContent = '' @ sq @ glyph_copy @ sq
     @ ''; this.style.background = '' @ sq @ ''transparent'' @ sq
     @ '';}, 2000);}).catch(() => {this.textContent = '' @ sq @ glyph_failed @ '' Erreur'' @ sq
     @ ''; setTimeout(() => {this.textContent = '' @ sq @ glyph_copy @ sq
     @ '';}, 2000);});'' @ dq @ ''>'' @ glyph_copy
     @ ''</button><div class='' @ dq @ ''code-content'' @ dq @ ''>''"

definition code_block_close :: string where
  "code_block_close = ''</div></pre>''"

definition add_copy_button :: "string \<Rightarrow> string" where
  "add_copy_button code_content =
     (let lines = py_split code_content [NL];
          clean_code = (if length lines > 1 then py_join [NL] (tl lines) else code_content)
      in code_block_open @ clean_code @ code_block_close)"

text \<open>
  The first loop over the lines: a line whose stripped text starts with three backticks
  toggles \<open>in_code_block\<close>; outside a code block, the first heading test that holds for
  the stripped line chooses a substitution \<open>^#... (.*)$\<close>, which is anchored at the start
  of the line as it stands. A line holds no line break, so the substitution applies
  exactly when the line starts with the marker.
\<close>

definition sub_heading :: "string \<Rightarrow> string \<Rightarrow> string \<Rightarrow> string" where
  "sub_heading marker tag line =
     (if startswith line marker
      then ''<'' @ tag @ ''>'' @ drop (length marker) line @ ''</'' @ tag @ ''>''
      else line)"

definition heading_line :: "string \<Rightarrow> string" where
  "heading_line line =
     (let s = strip line
      in if startswith s ''# '' then sub_heading ''# '' ''h1'' line
         else if startswith s ''## '' then sub_heading ''## '' ''h2'' line
         else if startswith s ''### '' then sub_heading ''### '' ''h3'' line
         else if startswith s ''#### '' then sub_heading ''#### '' ''h4'' line
         else if startswith s ''##### '' then sub_heading ''##### '' ''h5'' line
         else if startswith s ''###### '' then sub_heading ''###### '' ''h6'' line
         else line)"

fun heading_pass :: "bool \<Rightarrow> string list \<Rightarrow> string list" where
  "heading_pass in_code_block [] = []"
| "heading_pass in_code_block (line # rest) =
     (if startswith (strip line) fence then line # heading_pass (\<not> in_code_block) rest
      else if in_code_block then line # heading_pass in_code_block rest
      else heading_line line # heading_pass in_code_block rest)"

text \<open>
  The second loop, over the pieces between \<open><br>\<close>: \<open>in_list\<close> and \<open>list_type\<close> are
  its two variables (\<open>list_type\<close> starts as \<open>None\<close>, printed \<open>None\<close> by an f-string), and
  the closing tag after the loop is the result for the empty list.
  \<open>number_dot\<close> is \<open>re.search(r'^\d+\.', line)\<close>.
\<close>

definition number_dot :: "string \<Rightarrow> bool" where
  "number_dot line \<longleftrightarrow>
     takeWhile is_digit line \<noteq> [] \<and> startswith (dropWhile is_digit line) ''.''"

fun list_pass :: "bool \<Rightarrow> string \<Rightarrow> string list \<Rightarrow> string list" where
  "list_pass in_list list_type [] =
     (if in_list then [''</'' @ list_type @ ''>''] else [])"
| "list_pass in_list list_type (line # rest) =
     (if startswith (strip line) ''<li>'' then
        (if \<not> in_list then
           (let list_type' = (if number_dot line then ''ol'' else ''ul'')
            in (''<'' @ list_type' @ ''>'') # line # list_pass True list_type' rest)
         else line # list_pass in_list list_type rest)
      else
        (if in_list then (''</'' @ list_type @ ''>'') # line # list_pass False list_type rest
         else line # list_pass in_list list_type rest))"

text \<open>
  \<open>render_content\<close> is the body of the loop over the nodes from the escaping of
  \<open><\<close> and \<open>>\<close> to the last \<open>join\<close>, applied to the text \<open>extract_node_content\<close>
  returns (for a text node, its text). It returns the markup put into the node's box and
  the flag \<open>has_code\<close>.
\<close>

definition escape_angle :: "string \<Rightarrow> string" where
  "escape_angle content =
     concat (map (\<lambda>c. if c = CHR ''>'' then ''&gt;'' else [c])
       (concat (map (\<lambda>c. if c = CHR ''<'' then ''&lt;'' else [c]) content)))"

definition render_content :: "string \<Rightarrow> string \<times> bool" where
  "render_content text =
     (let content = escape_angle text;
          content = py_join [NL] (heading_pass False (py_split content [NL]));
          has_code = (find_sub fence content \<noteq> None);
          content = (if has_code
                     then re_sub (m_fence add_copy_button) (clean_content_after_code content)
                     else content);
          content = re_sub m_bold content;
          content = re_sub m_italic content;
          content = re_sub m_link content;
          content = re_sub m_parbreak content;
          content = ''<p>'' @ content @ ''</p>'';
          content = re_sub m_empty_par content;
          content = re_sub m_newline content;
          content = re_sub m_li_ordered content;
          content = re_sub m_li_bullet content;
          content = py_join ''<br>'' (list_pass False ''None'' (py_split content ''<br>''))
      in (content, has_code))"

text \<open>
  Two tests used in the proofs about the renderer, not part of it. \<open>could_start p s\<close>
  holds when \<open>p\<close> could be a prefix of \<open>s\<close> followed by more text: \<open>p\<close> is a prefix
  of \<open>s\<close>, or \<open>s\<close> is a prefix of \<open>p\<close>. \<open>safe_for p xs\<close> holds when at no position of
  \<open>xs\<close> an occurrence of \<open>p\<close> can begin, whatever text follows \<open>xs\<close>.
\<close>

fun could_start :: "string \<Rightarrow> string \<Rightarrow> bool" where
  "could_start [] s = True"
| "could_start (a # p) [] = True"
| "could_start (a # p) (c # s) = (a = c \<and> could_start p s)"

fun safe_for :: "string \<Rightarrow> string \<Rightarrow> bool" where
  "safe_for p [] = True"
| "safe_for p (c # cs) = (\<not> could_start p (c # cs) \<and> safe_for p cs)"

section \<open>Example boards\<close>

text \<open>
  Boards for the layout engine. \<open>five_nodes\<close>: four boxes with the same centre
  \<open>(50, 25)\<close> and one box far to the right. \<open>four_nodes\<close>: four boxes in a row.
  \<open>two_nodes\<close>: two boxes. The last three hold point-sized boxes with very large
  coordinates: \<open>far_x = 2 ^ 700\<close> has a square beyond the float range, and a sum of
  two \<open>top_x = 2 ^ 1023\<close> is beyond it.
\<close>

definition b1 :: node where
  "b1 = \<lparr>node_id = ''b1'', node_x = 0, node_y = 0, node_width = 100, node_height = 50\<rparr>"

definition b2 :: node where
  "b2 = \<lparr>node_id = ''b2'', node_x = 10, node_y = 5, node_width = 80, node_height = 40\<rparr>"

definition b3 :: node where
  "b3 = \<lparr>node_id = ''b3'', node_x = 20, node_y = 10, node_width = 60, node_height = 30\<rparr>"

definition b4 :: node where
  "b4 = \<lparr>node_id = ''b4'', node_x = - 1450, node_y = - 975, node_width = 3000, node_height = 2000\<rparr>"

definition b_far :: node where
  "b_far = \<lparr>node_id = ''far'', node_x = 5000, node_y = 0, node_width = 100, node_height = 50\<rparr>"

definition five_nodes :: "node list" where
  "five_nodes = [b1, b2, b3, b4, b_far]"


definition two_nodes :: "node list" where
  "two_nodes =
     [\<lparr>node_id = ''a'', node_x = 0, node_y = 0, node_width = 100, node_height = 50\<rparr>,
      \<lparr>node_id = ''b'', node_x = 300, node_y = 400, node_width = 100, node_height = 50\<rparr>]"

definition far_x :: real where
  "far_x = 2 ^ 700"

definition top_x :: real where
  "top_x = 2 ^ 1023"

definition point_box :: "string \<Rightarrow> real \<Rightarrow> node" where
  "point_box i x = \<lparr>node_id = i, node_x = x, node_y = 0, node_width = 0, node_height = 0\<rparr>"

definition two_far_nodes :: "node list" where
  "two_far_nodes = [point_box ''o'' 0, point_box ''f'' far_x]"

definition four_far_nodes :: "node list" where
  "four_far_nodes = [point_box ''o1'' 0, point_box ''o2'' 0, point_box ''o3'' 0, point_box ''f'' far_x]"


text \<open>Node texts: the code block of the specification's example, with its language line,
  and three bullet lines followed by a blank line; then the same three bullets with a
  blank line between them.\<close>

definition code_example :: string where
  "code_example = fence @ ''python'' @ [NL] @ ''print('' @ dq @ ''**not bold**'' @ dq @ '')'' @ [NL] @ fence"

definition list_example :: string where
  "list_example = ''- a'' @ [NL] @ ''- b'' @ [NL] @ ''- c'' @ [NL] @ [NL]"

definition spaced_list_example :: string where
  "spaced_list_example = ''- a'' @ [NL, NL] @ ''- b'' @ [NL, NL] @ ''- c''"

text \<open>Boxes as the viewer script reads them, and edges between them: the boxes \<open>A\<close> and
  \<open>B\<close> of the specification's example, a box \<open>C\<close> below and to the right of \<open>A\<close>, and
  edges with declared sides.\<close>

definition box_A :: node where
  "box_A = \<lparr>node_id = ''A'', node_x = 0, node_y = 0, node_width = 100, node_height = 50\<rparr>"

definition box_B :: node where
  "box_B = \<lparr>node_id = ''B'', node_x = 300, node_y = 0, node_width = 100, node_height = 50\<rparr>"

definition box_C :: node where
  "box_C = \<lparr>node_id = ''C'', node_x = 430, node_y = 400, node_width = 100, node_height = 50\<rparr>"

definition edge_AB :: edge where
  "edge_AB = \<lparr>edge_id = ''e0'', edge_fromNode = ''A'', edge_toNode = ''B'',
              edge_fromSide = Some ''right'', edge_toSide = Some ''left'', edge_label = None\<rparr>"

definition edge_AC :: edge where
  "edge_AC = \<lparr>edge_id = ''e1'', edge_fromNode = ''A'', edge_toNode = ''C'',
              edge_fromSide = Some ''right'', edge_toSide = Some ''left'', edge_label = None\<rparr>"

definition edge_AC_same :: edge where
  "edge_AC_same = \<lparr>edge_id = ''e2'', edge_fromNode = ''A'', edge_toNode = ''C'',
              edge_fromSide = Some ''right'', edge_toSide = Some ''right'', edge_label = None\<rparr>"

section \<open>Properties of the layout engine\<close>

subsection \<open>Comprehensions and the sort\<close>

lemma and_then_Inr: "and_then m f = Inr y \<longleftrightarrow> (\<exists>x. m = Inr x \<and> f x = Inr y)"
  by (cases m) (simp_all add: and_then_def)

lemma map_err_Inr_iff: "map_err f xs = Inr ys \<longleftrightarrow> list_all2 (\<lambda>x y. f x = Inr y) xs ys"
proof (induction xs arbitrary: ys)
  case Nil
  show ?case by auto
next
  case (Cons x xs)
  show ?case
    by (cases ys) (auto simp flip: Cons.IH split: sum.splits)
qed

lemma map_err_length: "map_err f xs = Inr ys \<Longrightarrow> length ys = length xs"
  by (simp add: map_err_Inr_iff list_all2_lengthD)

lemma map_err_map: "map_err f (map g xs) = map_err (\<lambda>x. f (g x)) xs"
  by (induction xs) (simp_all split: sum.splits)

lemma map_err_const: "(\<And>x. f x = Inr c) \<Longrightarrow> map_err f xs = Inr (map (\<lambda>x. c) xs)"
  by (induction xs) simp_all

lemma map_err_tagged:
  "map_err (\<lambda>n. and_then (g n) (\<lambda>d. Inr (d, n))) xs = Inr ds \<Longrightarrow>
     map_err g xs = Inr (map fst ds) \<and> map snd ds = xs"
proof (induction xs arbitrary: ds)
  case Nil
  then show ?case by auto
next
  case (Cons x xs)
  then show ?case
    by (cases ds) (auto simp: and_then_def split: sum.splits)
qed

lemma map_err_paired:
  "map_err f xs = Inr as \<Longrightarrow> map_err g xs = Inr bs \<Longrightarrow>
     map_err (\<lambda>n. and_then (f n) (\<lambda>a. and_then (g n) (\<lambda>b. Inr (a, b)))) xs = Inr (zip as bs)"
proof (induction xs arbitrary: as bs)
  case Nil
  then show ?case by auto
next
  case (Cons x xs)
  then show ?case
    by (cases as; cases bs) (auto simp: and_then_def split: sum.splits)
qed

text \<open>\<open>py_sort\<close> permutes its argument, commutes with taking the keys, and sorts keys
  that are not \<open>NaN\<close>.\<close>

lemma mset_insert_key: "mset (insert_key k x ys) = add_mset x (mset ys)"
  by (induction ys) simp_all

lemma mset_py_sort: "mset (py_sort k xs) = mset xs"
  unfolding py_sort_def by (induction xs) (simp_all add: mset_insert_key)

lemma length_py_sort: "length (py_sort k xs) = length xs"
  using mset_py_sort [of k xs] by (metis size_mset)

lemma set_py_sort: "set (py_sort k xs) = set xs"
  using mset_py_sort [of k xs] by (metis set_mset_mset)

lemma map_insert_key: "map k (insert_key k x ys) = insert_key (\<lambda>d. d) (k x) (map k ys)"
  by (induction ys) simp_all

lemma map_py_sort: "map k (py_sort k xs) = py_sort (\<lambda>d. d) (map k xs)"
  unfolding py_sort_def by (induction xs) (simp_all add: map_insert_key)

lemma flt_trans_le:
  "\<not> flt b a \<Longrightarrow> \<not> flt c b \<Longrightarrow> a \<noteq> NaN \<Longrightarrow> b \<noteq> NaN \<Longrightarrow> c \<noteq> NaN \<Longrightarrow> \<not> flt c a"
  by (cases a; cases b; cases c) simp_all

lemma flt_asym: "flt a b \<Longrightarrow> \<not> flt b a"
  by (cases a; cases b) simp_all

lemma set_insert_key: "set (insert_key k x ys) = insert x (set ys)"
  by (induction ys) auto

lemma sorted_insert_key:
  assumes "sorted_wrt (\<lambda>a b. \<not> flt (k b) (k a)) ys" and "\<forall>y \<in> set (x # ys). k y \<noteq> NaN"
  shows "sorted_wrt (\<lambda>a b. \<not> flt (k b) (k a)) (insert_key k x ys)"
  using assms
proof (induction ys)
  case Nil
  then show ?case by simp
next
  case (Cons y ys)
  show ?case
  proof (cases "flt (k y) (k x)")
    case True
    then have "\<not> flt (k x) (k y)" by (rule flt_asym)
    with Cons True show ?thesis by (auto simp: set_insert_key)
  next
    case False
    have "\<not> flt (k z) (k x)" if "z \<in> set ys" for z
      using Cons.prems False that flt_trans_le [of "k y" "k x" "k z"] by auto
    with Cons.prems False show ?thesis by auto
  qed
qed

lemma sorted_py_sort:
  "\<forall>x \<in> set xs. k x \<noteq> NaN \<Longrightarrow> sorted_wrt (\<lambda>a b. \<not> flt (k b) (k a)) (py_sort k xs)"
proof (induction xs)
  case Nil
  show ?case by (simp add: py_sort_def)
next
  case (Cons x xs)
  have "sorted_wrt (\<lambda>a b. \<not> flt (k b) (k a)) (insert_key k x (py_sort k xs))"
    using Cons by (intro sorted_insert_key) (simp_all add: set_py_sort)
  then show ?case by (simp add: py_sort_def)
qed

lemma filter_sorted_mset:
  "mset (map snd (filter P (py_sort k xs))) = mset (map snd (filter P xs))"
  by (simp only: mset_map mset_filter mset_py_sort)

subsection \<open>A \<open>NaN\<close> among the distances\<close>

text \<open>When a distance is \<open>NaN\<close>, so are the mean, the variance and the threshold, and no
  node passes the test, in whatever order the pairs are.\<close>

lemma fadd_NaN [simp]: "fadd r a NaN = NaN"
  by (cases a) simp_all

lemma fle_NaN [simp]: "fle a NaN = False"
  by (cases a) simp_all

lemma sum_loop_from_NaN: "fst (sum_loop r NaN b xs) = NaN"
  by (induction xs arbitrary: b) simp_all

lemma sum_loop_NaN: "NaN \<in> set xs \<Longrightarrow> fst (sum_loop r acc b xs) = NaN"
proof (induction xs arbitrary: acc b)
  case Nil
  then show ?case by simp
next
  case (Cons x xs)
  then show ?case by (cases "x = NaN") (simp_all add: sum_loop_from_NaN)
qed

lemma py_sum_NaN: "NaN \<in> set xs \<Longrightarrow> py_sum pf xs = NaN"
  using sum_loop_NaN [of xs "rnd pf" "Fin 0" True]
  by (cases "sum_loop (rnd pf) (Fin 0) True xs") (simp add: py_sum_def)

lemma main_of_NaN:
  assumes "NaN \<in> fst ` set ds"
  shows "main_of pf ds = Inr []"
proof -
  from assms have ne: "ds \<noteq> []" by auto
  have mean: "fdiv_len (rnd pf) (py_sum pf (map fst ds)) (length ds) = NaN"
    using assms by (simp add: py_sum_NaN)
  have sq: "map_err (\<lambda>d. pow2 pf (fsub (rnd pf) (fst d) NaN)) ds = Inr (map (\<lambda>d. NaN) ds)"
    by (rule map_err_const) (simp add: fsub_def)
  have "NaN \<in> set (map (\<lambda>d. NaN) ds)"
    using ne by (cases ds) simp_all
  then have var: "fdiv_len (rnd pf) (py_sum pf (map (\<lambda>d. NaN) ds)) (length ds) = NaN"
    by (simp add: py_sum_NaN)
  show ?thesis
    by (simp add: main_of_def mean sq and_then_def var)
qed

subsection \<open>The code against the wording of the specification\<close>

lemma spec_distance_eq: "spec_distance pf (cx, cy) n = node_distance pf cx cy n"
  by (simp add: spec_distance_def spec_center_def spec_euclid_def node_distance_def and_then_def
      split: sum.splits)

lemma spec_centroid_eq:
  assumes "center_x pf nodes = Inr cx" and "center_y pf nodes = Inr cy"
  shows "spec_centroid pf nodes = Inr (cx, cy)"
proof -
  from assms(1) obtain xs where xs: "map_err (\<lambda>n. center pf (node_x n) (node_width n)) nodes = Inr xs"
    and cx: "cx = fdiv_len (rnd pf) (py_sum pf xs) (length nodes)"
    by (auto simp: center_x_def and_then_Inr)
  from assms(2) obtain ys where ys: "map_err (\<lambda>n. center pf (node_y n) (node_height n)) nodes = Inr ys"
    and cy: "cy = fdiv_len (rnd pf) (py_sum pf ys) (length nodes)"
    by (auto simp: center_y_def and_then_Inr)
  have len: "length xs = length nodes" "length ys = length nodes"
    using xs ys by (simp_all add: map_err_length)
  have "spec_center pf = (\<lambda>n. and_then (center pf (node_x n) (node_width n))
      (\<lambda>a. and_then (center pf (node_y n) (node_height n)) (\<lambda>b. Inr (a, b))))"
    by (rule ext) (simp add: spec_center_def)
  then have "map_err (spec_center pf) nodes = Inr (zip xs ys)"
    using map_err_paired [OF xs ys] by simp
  then show ?thesis
    by (simp add: spec_centroid_def and_then_def spec_mean_def len cx cy)
qed

lemma main_of_Inr:
  assumes "main_of pf distances = Inr res"
  shows "\<exists>thr. spec_threshold pf (map fst distances) = Inr thr
           \<and> res = map snd (filter (\<lambda>d. fle (fst d) thr) distances)"
proof -
  let ?mean = "fdiv_len (rnd pf) (py_sum pf (map fst distances)) (length distances)"
  from assms obtain sq std where
    sq: "map_err (\<lambda>d. pow2 pf (fsub (rnd pf) (fst d) ?mean)) distances = Inr sq"
    and std: "pow_half pf (fdiv_len (rnd pf) (py_sum pf sq) (length distances)) = Inr std"
    and res: "res = map snd (filter (\<lambda>d. fle (fst d)
                 (fadd (rnd pf) ?mean (fmul (rnd pf) (Fin (3 / 2)) std))) distances)"
    by (auto simp: main_of_def Let_def and_then_Inr)
  have len: "length sq = length distances"
    using sq by (rule map_err_length)
  have "spec_stddev pf (map fst distances) = Inr std"
    using sq std by (simp add: spec_stddev_def spec_mean_def map_err_map and_then_def len)
  then have "spec_threshold pf (map fst distances)
      = Inr (fadd (rnd pf) ?mean (fmul (rnd pf) (Fin (3 / 2)) std))"
    by (simp add: spec_threshold_def spec_mean_def and_then_def)
  with res show ?thesis by blast
qed

lemma filter_main_nodes_Inr:
  assumes "1 < length nodes" and "filter_main_nodes pf nodes = Inr res"
  shows "\<exists>cx cy ds. center_x pf nodes = Inr cx \<and> center_y pf nodes = Inr cy
           \<and> map_err (node_distance pf cx cy) nodes = Inr ds
           \<and> (if 2 < length nodes then main_of pf (py_sort fst (zip ds nodes)) = Inr res
               else res = nodes)"
proof -
  from assms obtain cx cy dns where
    cx: "center_x pf nodes = Inr cx" and cy: "center_y pf nodes = Inr cy"
    and dns: "map_err (\<lambda>n. and_then (node_distance pf cx cy n) (\<lambda>d. Inr (d, n))) nodes = Inr dns"
    and res: "(if 2 < length (py_sort fst dns) then main_of pf (py_sort fst dns) else Inr nodes) = Inr res"
    by (auto simp: filter_main_nodes_def Let_def and_then_Inr)
  from map_err_tagged [OF dns] have ds: "map_err (node_distance pf cx cy) nodes = Inr (map fst dns)"
    and sn: "map snd dns = nodes" by simp_all
  have z: "zip (map fst dns) nodes = dns"
    unfolding sn [symmetric] by (simp add: zip_map_fst_snd)
  have len: "length dns = length nodes"
    using dns by (rule map_err_length)
  show ?thesis
    using cx cy ds res by (auto simp: z length_py_sort len split: if_splits)
qed

subsection \<open>Only the float arithmetic raises\<close>

lemma and_then_float:
  "m \<noteq> Inl ValueError \<Longrightarrow> (\<And>x. f x \<noteq> Inl ValueError) \<Longrightarrow> and_then m f \<noteq> Inl ValueError"
  by (cases m) (simp_all add: and_then_def)

lemma map_err_float: "(\<And>x. f x \<noteq> Inl ValueError) \<Longrightarrow> map_err f xs \<noteq> Inl ValueError"
  by (induction xs) (auto split: sum.splits)

lemma pow2_float: "pow2 pf v \<noteq> Inl ValueError"
  by (cases v) (simp_all add: pow_result_def split: option.splits)

lemma pow_half_float: "pow_half pf v \<noteq> Inl ValueError"
  by (cases v) (simp_all add: pow_result_def split: option.splits)

lemma center_float: "center pf p w \<noteq> Inl ValueError"
  unfolding center_def by (intro and_then_float) (simp_all add: half_def to_float_def)

lemma node_distance_float: "node_distance pf cx cy n \<noteq> Inl ValueError"
  unfolding node_distance_def by (intro and_then_float center_float pow2_float pow_half_float)

lemma main_of_float: "main_of pf ds \<noteq> Inl ValueError"
  unfolding main_of_def Let_def
  by (intro and_then_float map_err_float pow2_float pow_half_float) simp

lemma center_x_float: "center_x pf nodes \<noteq> Inl ValueError"
  unfolding center_x_def by (intro and_then_float map_err_float center_float) simp

lemma center_y_float: "center_y pf nodes \<noteq> Inl ValueError"
  unfolding center_y_def by (intro and_then_float map_err_float center_float) simp

lemma filter_main_nodes_float: "filter_main_nodes pf nodes \<noteq> Inl ValueError"
proof (cases "length nodes \<le> 1")
  case True
  then show ?thesis by (simp add: filter_main_nodes_def)
next
  case False
  then show ?thesis
    unfolding filter_main_nodes_def
    apply (simp only: if_False)
    apply (intro and_then_float center_x_float center_y_float map_err_float node_distance_float)
     apply (simp_all add: Let_def main_of_float)
    done
qed

lemma filter_main_nodes_raises: "filter_main_nodes pf nodes = Inl e \<Longrightarrow> e = FloatError"
  using filter_main_nodes_float [of pf nodes] by (cases e) simp_all

subsection \<open>Evaluation on the example boards\<close>

text \<open>Integers below \<open>2 ^ 53 = 9007199254740992\<close> in magnitude are floats, and so are
  \<open>far_x\<close>, its half and its quarter, and \<open>top_x\<close>; \<open>top_x + top_x\<close> overflows.\<close>

lemma is_double_int: "\<bar>real_of_int m\<bar> < 2 ^ 53 \<Longrightarrow> is_double (of_int m)"
  unfolding is_double_def by (rule bexI [of _ 0]) simp_all

lemma is_double_scaled:
  "e \<in> {- 1074 .. 971} \<Longrightarrow> \<bar>real_of_int m\<bar> < 2 ^ 53 \<Longrightarrow> is_double (of_int m * 2 powi e)"
  unfolding is_double_def by (rule bexI [of _ e]) simp_all

lemma OVF_big: "2 ^ 1023 < OVF"
proof -
  have "(2::real) ^ 970 < 2 ^ 1023" by (rule power_strict_increasing) simp_all
  moreover have "(2::real) ^ 1024 = 2 ^ 1023 + 2 ^ 1023" by simp
  ultimately show ?thesis unfolding OVF_def by linarith
qed

lemma small_le: "\<bar>x\<bar> < 2 ^ 53 \<Longrightarrow> \<bar>x :: real\<bar> < 2 ^ 1023"
proof -
  assume "\<bar>x\<bar> < 2 ^ 53"
  moreover have "(2::real) ^ 53 \<le> 2 ^ 1023" by (rule power_increasing) simp_all
  ultimately show ?thesis by linarith
qed

lemma round_to_exact: "is_double x \<Longrightarrow> \<bar>x\<bar> \<le> 2 ^ 1023 \<Longrightarrow> round_to r x = Fin x"
  using OVF_big unfolding round_to_def by auto

lemma round_to_int: "\<bar>real_of_int m\<bar> < 2 ^ 53 \<Longrightarrow> round_to r (of_int m) = Fin (of_int m)"
  using round_to_exact [of "of_int m" r] is_double_int [of m] small_le [of "of_int m"] by linarith

lemma small_OVF: "\<bar>x\<bar> < 2 ^ 53 \<Longrightarrow> \<not> OVF \<le> \<bar>x\<bar>"
  using OVF_big small_le [of x] by linarith

lemma is_double_numeral [simp]: "numeral k < (9007199254740992::real) \<Longrightarrow> is_double (numeral k)"
  using is_double_int [of "numeral k"] by simp

lemma is_double_neg_numeral [simp]: "numeral k < (9007199254740992::real) \<Longrightarrow> is_double (- numeral k)"
  using is_double_int [of "- numeral k"] by simp

lemma is_double_0 [simp]: "is_double 0"
  using is_double_int [of 0] by simp

lemma is_double_1 [simp]: "is_double 1"
  using is_double_int [of 1] by simp

lemma round_to_numeral [simp]:
  "numeral k < (9007199254740992::real) \<Longrightarrow> round_to r (numeral k) = Fin (numeral k)"
  using round_to_int [of "numeral k" r] by simp

lemma round_to_neg_numeral [simp]:
  "numeral k < (9007199254740992::real) \<Longrightarrow> round_to r (- numeral k) = Fin (- numeral k)"
  using round_to_int [of "- numeral k" r] by simp

lemma round_to_0 [simp]: "round_to r 0 = Fin 0"
  using round_to_int [of 0 r] by simp

lemma round_to_1 [simp]: "round_to r 1 = Fin 1"
  using round_to_int [of 1 r] by simp

lemma OVF_numeral [simp]: "numeral k < (9007199254740992::real) \<Longrightarrow> \<not> OVF \<le> numeral k"
  using small_OVF [of "numeral k"] by simp

lemma OVF_0 [simp]: "\<not> OVF \<le> 0"
  using small_OVF [of 0] by simp

lemma OVF_1 [simp]: "\<not> OVF \<le> 1"
  using small_OVF [of 1] by simp

lemma binary64_sel [simp]:
  "rnd binary64 = rne"
  "pf_square binary64 x = finite_only (round_to rne (x * x))"
  "pf_root binary64 x = finite_only (round_to rne (sqrt x))"
  by (simp_all add: binary64_def)

lemma sqrt_sq: "0 \<le> a \<Longrightarrow> b = a * a \<Longrightarrow> sqrt b = a"
  by (simp add: real_sqrt_mult)

lemma sqrt_vals [simp]:
  "sqrt 1000000 = 1000" "sqrt 16000000 = 4000" "sqrt 1440000 = 1200"
  "sqrt 90000 = 300" "sqrt 10000 = 100" "sqrt 62500 = 250"
  by (rule sqrt_sq, simp, simp)+

lemmas float_eval =
  center_def half_def to_float_def and_then_def center_x_def center_y_def
  node_distance_def main_of_def filter_main_nodes_def py_sum_def py_sort_def
  fsub_def pow_result_def finite_only_def Let_def

text \<open>
  On \<open>five_nodes\<close> the centroid is \<open>(1050, 25)\<close>, the distances are \<open>1000\<close> four times
  and \<open>4000\<close>, their mean is \<open>1600\<close>, the variance \<open>1440000\<close>, the standard deviation
  \<open>1200\<close> and the threshold \<open>3400\<close>: the far box is left out.
\<close>

lemma filter_five: "filter_main_nodes binary64 five_nodes = Inr [b1, b2, b3, b4]"
  by (simp add: five_nodes_def b1_def b2_def b3_def b4_def b_far_def float_eval)

lemma values_five:
  "spec_centroid binary64 five_nodes = Inr (Fin 1050, Fin 25)
 \<and> map_err (spec_distance binary64 (Fin 1050, Fin 25)) five_nodes
      = Inr [Fin 1000, Fin 1000, Fin 1000, Fin 1000, Fin 4000]
 \<and> spec_threshold binary64 [Fin 1000, Fin 1000, Fin 1000, Fin 1000, Fin 4000] = Inr (Fin 3400)"
  by (simp add: five_nodes_def b1_def b2_def b3_def b4_def b_far_def float_eval
      spec_centroid_def spec_center_def spec_mean_def spec_distance_def spec_euclid_def
      spec_threshold_def spec_stddev_def)


lemma filter_two: "filter_main_nodes binary64 two_nodes = Inr two_nodes"
  by (simp add: two_nodes_def float_eval)

text \<open>
  With one node at \<open>far_x = 2 ^ 700\<close> and the others at \<open>0\<close>, the centre of mass has
  \<open>x = far_x / len(nodes)\<close>, and the first square \<open>(0.0 - center_x) ** 2\<close> is out of
  the float range.
\<close>

lemma far_double [simp]:
  "is_double far_x" "is_double (far_x / 2)" "is_double (- (far_x / 2))"
  "is_double (far_x / 4)" "is_double (- (far_x / 4))"
  using is_double_scaled [of 700 1] is_double_scaled [of 699 1] is_double_scaled [of 699 "- 1"]
    is_double_scaled [of 698 1] is_double_scaled [of 698 "- 1"]
  by (simp_all add: far_x_def)

lemma far_bounds: "0 < far_x" "far_x < 2 ^ 1023"
  by (simp_all add: far_x_def)

lemma far_round [simp]:
  "round_to r far_x = Fin far_x" "round_to r (far_x / 2) = Fin (far_x / 2)"
  "round_to r (- (far_x / 2)) = Fin (- (far_x / 2))"
  "round_to r (far_x / 4) = Fin (far_x / 4)"
  "round_to r (- (far_x / 4)) = Fin (- (far_x / 4))"
  using far_bounds by (simp_all add: round_to_exact)

lemma far_OVF [simp]: "\<not> OVF \<le> far_x"
  using far_bounds OVF_big by linarith

lemma far_sq: "2 ^ 1024 \<le> (far_x / 2) * (far_x / 2)" "2 ^ 1024 \<le> (far_x / 4) * (far_x / 4)"
  by (simp_all add: far_x_def)

lemma filter_two_far: "filter_main_nodes binary64 two_far_nodes = Inl FloatError"
  using far_bounds far_sq by (simp add: two_far_nodes_def point_box_def float_eval)

lemma filter_four_far: "filter_main_nodes binary64 four_far_nodes = Inl FloatError"
  using far_bounds far_sq by (simp add: four_far_nodes_def point_box_def float_eval)

text \<open>
  With three nodes at \<open>top_x = 2 ^ 1023\<close> the sum of the centres is \<open>+inf\<close>, and so are
  \<open>center_x\<close>, every distance and their mean; \<open>inf - inf\<close> is \<open>NaN\<close>, the threshold is
  \<open>NaN\<close>, and no node is kept. Nothing raises. The extent is then computed from all
  nodes.
\<close>

lemma top_double [simp]: "is_double top_x"
  using is_double_scaled [of 971 "2 ^ 52"] by (simp add: top_x_def)

lemma top_bounds: "0 < top_x" "top_x < OVF" "OVF \<le> top_x + top_x"
  using OVF_big by (simp_all add: top_x_def OVF_def)

lemma top_round [simp]: "round_to r top_x = Fin top_x" "round_to r (2 * top_x) = PInf"
  using top_bounds by (simp_all add: round_to_def)

lemma top_OVF [simp]: "\<not> OVF \<le> top_x"
  using top_bounds by linarith



subsection \<open>The main-node filter\<close>

text \<open>
  Claim C5, as stated, fails: for the four nodes of \<open>four_far_nodes\<close>, more than 2,
  \<open>filter_main_nodes\<close> returns no list; it raises \<open>OverflowError\<close> at the first
  squared difference.
\<close>

theorem filter_main_nodes_overflow:
  "2 < length four_far_nodes \<and> filter_main_nodes binary64 four_far_nodes = Inl FloatError"
  by (simp add: filter_four_far) (simp add: four_far_nodes_def)

text \<open>
  Claim C5, amended. For every node list with more than 2 elements on which
  \<open>filter_main_nodes\<close> returns, on every platform: the centroid \<open>c\<close> of the node
  centres, the distances \<open>ds\<close> of the nodes' centres from it and the threshold
  \<open>thr = mean + 1.5 * stddev\<close> of these distances (mean and population standard
  deviation, summed in increasing order of distance) are computed without an
  exception, and the result holds exactly the nodes whose distance is at most the
  threshold, each as often as in the input.
\<close>

theorem filter_main_nodes_threshold:
  assumes "2 < length nodes" and "filter_main_nodes pf nodes = Inr res"
  shows "\<exists>c ds thr. spec_centroid pf nodes = Inr c
           \<and> map_err (spec_distance pf c) nodes = Inr ds
           \<and> spec_threshold pf (py_sort (\<lambda>d. d) ds) = Inr thr
           \<and> mset res = mset (map snd (filter (\<lambda>p. fle (fst p) thr) (zip ds nodes)))"
proof -
  from assms filter_main_nodes_Inr [of nodes pf res] obtain cx cy ds where
    cx: "center_x pf nodes = Inr cx" and cy: "center_y pf nodes = Inr cy"
    and ds: "map_err (node_distance pf cx cy) nodes = Inr ds"
    and m: "main_of pf (py_sort fst (zip ds nodes)) = Inr res"
    by auto
  have len: "length ds = length nodes"
    using ds by (rule map_err_length)
  from main_of_Inr [OF m] obtain thr where
    thr: "spec_threshold pf (map fst (py_sort fst (zip ds nodes))) = Inr thr"
    and res: "res = map snd (filter (\<lambda>d. fle (fst d) thr) (py_sort fst (zip ds nodes)))"
    by blast
  have "map fst (py_sort fst (zip ds nodes)) = py_sort (\<lambda>d. d) ds"
    by (simp add: map_py_sort len)
  with thr have t: "spec_threshold pf (py_sort (\<lambda>d. d) ds) = Inr thr" by simp
  have c: "spec_centroid pf nodes = Inr (cx, cy)"
    using cx cy by (rule spec_centroid_eq)
  have d: "map_err (spec_distance pf (cx, cy)) nodes = Inr ds"
    using ds by (simp add: spec_distance_eq [abs_def])
  have "mset res = mset (map snd (filter (\<lambda>p. fle (fst p) thr) (zip ds nodes)))"
    unfolding res by (rule filter_sorted_mset)
  with c d t show ?thesis by blast
qed

theorem filter_main_nodes_threshold_witness:
  "2 < length five_nodes \<and> filter_main_nodes binary64 five_nodes = Inr [b1, b2, b3, b4]
 \<and> (\<exists>c ds thr. spec_centroid binary64 five_nodes = Inr c
        \<and> map_err (spec_distance binary64 c) five_nodes = Inr ds
        \<and> spec_threshold binary64 (py_sort (\<lambda>d. d) ds) = Inr thr
        \<and> mset [b1, b2, b3, b4] = mset (map snd (filter (\<lambda>p. fle (fst p) thr) (zip ds five_nodes))))"
proof -
  have h: "2 < length five_nodes" by (simp add: five_nodes_def)
  from filter_main_nodes_threshold [OF h filter_five] h filter_five show ?thesis by blast
qed

text \<open>
  Claim C8, as stated, fails: for the two nodes of \<open>two_far_nodes\<close> the distances are
  computed before the length is tested, and \<open>filter_main_nodes\<close> raises
  \<open>OverflowError\<close> instead of returning its argument.
\<close>

theorem filter_main_nodes_two_overflow:
  "length two_far_nodes \<le> 2 \<and> filter_main_nodes binary64 two_far_nodes = Inl FloatError"
  by (simp add: filter_two_far) (simp add: two_far_nodes_def)

text \<open>
  Claim C8, amended. For every node list with at most 2 elements, on every platform,
  \<open>filter_main_nodes\<close> returns its argument unchanged (same nodes, same order), or,
  when the list has exactly 2 elements, raises in the float arithmetic of the
  distances.
\<close>

theorem filter_main_nodes_identity:
  assumes "length nodes \<le> 2"
  shows "filter_main_nodes pf nodes = Inr nodes
       \<or> (length nodes = 2 \<and> filter_main_nodes pf nodes = Inl FloatError)"
proof (cases "length nodes \<le> 1")
  case True
  then show ?thesis by (simp add: filter_main_nodes_def)
next
  case False
  with assms have two: "length nodes = 2" by simp
  show ?thesis
  proof (cases "filter_main_nodes pf nodes")
    case (Inl e)
    then show ?thesis using two filter_main_nodes_raises [of pf nodes e] by simp
  next
    case (Inr res)
    with filter_main_nodes_Inr [of nodes pf res] two show ?thesis by auto
  qed
qed

theorem filter_main_nodes_identity_witness:
  "length two_nodes \<le> 2 \<and> filter_main_nodes binary64 two_nodes = Inr two_nodes
 \<and> length (take 1 two_nodes) \<le> 2 \<and> filter_main_nodes binary64 (take 1 two_nodes) = Inr (take 1 two_nodes)"
proof -
  have h: "length two_nodes \<le> 2" by (simp add: two_nodes_def)
  have h1: "length (take 1 two_nodes) \<le> 2" by simp
  have l1: "length (take 1 two_nodes) \<noteq> 2" by simp
  from filter_main_nodes_identity [OF h1, of binary64] l1
  have "filter_main_nodes binary64 (take 1 two_nodes) = Inr (take 1 two_nodes)" by blast
  with filter_main_nodes_identity [OF h, of binary64] filter_two h h1 show ?thesis by simp
qed

subsection \<open>The canvas extent\<close>

lemma fold_min_Min: "fold min (map f rest) (f n) = Min (f ` set (n # rest))"
proof -
  have "Min (set (f n # map f rest)) = fold min (map f rest) (f n)"
    by (rule Min.set_eq_fold)
  then show ?thesis by simp
qed

lemma fold_max_Max: "fold max (map f rest) (f n) = Max (f ` set (n # rest))"
proof -
  have "Max (set (f n # map f rest)) = fold max (map f rest) (f n)"
    by (rule Max.set_eq_fold)
  then show ?thesis by simp
qed

lemma bounds_bbox:
  assumes "ns \<noteq> []"
  shows "bounds ns = Inr (bbox_min_x ns, bbox_max_x ns, bbox_min_y ns, bbox_max_y ns)"
proof (cases ns)
  case Nil
  with assms show ?thesis by simp
next
  case (Cons n rest)
  have 1: "fold min (map node_x rest) (node_x n) = bbox_min_x ns"
    unfolding bbox_min_x_def Cons by (rule fold_min_Min)
  have 2: "fold max (map (\<lambda>m. node_x m + node_width m) rest) (node_x n + node_width n) = bbox_max_x ns"
    unfolding bbox_max_x_def Cons
    using fold_max_Max [of "\<lambda>m. node_x m + node_width m" rest n] by simp
  have 3: "fold min (map node_y rest) (node_y n) = bbox_min_y ns"
    unfolding bbox_min_y_def Cons by (rule fold_min_Min)
  have 4: "fold max (map (\<lambda>m. node_y m + node_height m) rest) (node_y n + node_height n) = bbox_max_y ns"
    unfolding bbox_max_y_def Cons
    using fold_max_Max [of "\<lambda>m. node_y m + node_height m" rest n] by simp
  have "bounds ns =
      Inr (fold min (map node_x rest) (node_x n),
           fold max (map (\<lambda>m. node_x m + node_width m) rest) (node_x n + node_width n),
           fold min (map node_y rest) (node_y n),
           fold max (map (\<lambda>m. node_y m + node_height m) rest) (node_y n + node_height n))"
    unfolding bounds_def Cons by simp
  then show ?thesis by (simp only: 1 2 3 4)
qed



text \<open>The other two outcomes for a non-empty node list: when the filtered list is empty
  the bounding box is that of all nodes, and when the filter raises there is no
  extent.\<close>

lemma fallback_extent:
  assumes "nodes \<noteq> []" and "filter_main_nodes pf nodes = Inr []"
  shows "compute_extent pf nodes =
        Inr \<lparr>canvas_width = max (bbox_max_x nodes - bbox_min_x nodes + 2 * 200) 2000,
             canvas_height = max (bbox_max_y nodes - bbox_min_y nodes + 2 * 200 + 100) 1500,
             offset_x = - bbox_min_x nodes + 200,
             offset_y = - bbox_min_y nodes + 200 + 100\<rparr>"
  using assms by (simp add: compute_extent_def and_then_def Let_def bounds_bbox [OF assms(1)])

lemma extent_raises:
  "nodes \<noteq> [] \<Longrightarrow> filter_main_nodes pf nodes = Inl e \<Longrightarrow> compute_extent pf nodes = Inl e"
  by (simp add: compute_extent_def and_then_def)

subsection \<open>The filtered list as part of the input\<close>





section \<open>Properties of the edge router\<close>

text \<open>
  Claim C7. For the boxes \<open>A\<close> and \<open>B\<close> with sides \<open>(right, left)\<close> the departure
  anchor is \<open>(100, 25)\<close> and the arrival anchor is \<open>(270, 25)\<close>. For every box and each
  of the four declared sides, the departure anchor is the middle of that side and the
  arrival anchor is this point moved outward by 30.
\<close>

theorem anchor_points:
  "calculateAnchorPoint box_A box_B ''right'' False = (100, 25)
 \<and> calculateAnchorPoint box_B box_A ''left'' True = (270, 25)
 \<and> calculateAnchorPoint n t ''top'' False = (node_x n + node_width n / 2, node_y n)
 \<and> calculateAnchorPoint n t ''top'' True = (node_x n + node_width n / 2, node_y n - 30)
 \<and> calculateAnchorPoint n t ''bottom'' False = (node_x n + node_width n / 2, node_y n + node_height n)
 \<and> calculateAnchorPoint n t ''bottom'' True = (node_x n + node_width n / 2, node_y n + node_height n + 30)
 \<and> calculateAnchorPoint n t ''left'' False = (node_x n, node_y n + node_height n / 2)
 \<and> calculateAnchorPoint n t ''left'' True = (node_x n - 30, node_y n + node_height n / 2)
 \<and> calculateAnchorPoint n t ''right'' False = (node_x n + node_width n, node_y n + node_height n / 2)
 \<and> calculateAnchorPoint n t ''right'' True = (node_x n + node_width n + 30, node_y n + node_height n / 2)"
  by (simp add: calculateAnchorPoint_def box_A_def box_B_def)

text \<open>The edge from \<open>A\<close> to \<open>B\<close> is drawn from the departure anchor to the arrival
  anchor, as a polyline through the two perpendicular control points.\<close>

lemma draw_AB:
  "fst (drawEdge [box_A, box_B] edge_AB r) =
     Some \<lparr>drawn_path = Polyline (100, 25) (180, 25) (190, 25) (270, 25),
            labelX = 185, labelY = 25, label_text = None\<rparr>"
  by (simp add: drawEdge_def box_A_def box_B_def edge_AB_def or_default_def calculateAnchorPoint_def
      Let_def Math_random_def createPerpendicularControlPoints_def control_of_def truthy_label_def)

text \<open>The element \<open>drawEdge\<close> appends does not depend on the values \<open>Math.random()\<close>
  returns: they reach the console only.\<close>

lemma drawEdge_fst_indep: "fst (drawEdge nodes e r1) = fst (drawEdge nodes e r2)"
  unfolding drawEdge_def Let_def split_def
  by (simp only: if_distrib [of fst] option.case_distrib [of fst] fst_conv)

text \<open>
  Claim C3. For fixed nodes and edges, two runs of the edge drawing append the same
  elements to the edge layer, paths and label positions included, whatever values the
  random source returns in each run.
\<close>

theorem render_deterministic: "fst (drawEdges nodes es r1) = fst (drawEdges nodes es r2)"
proof (induction es arbitrary: r1 r2)
  case Nil
  show ?case by simp
next
  case (Cons e es)
  obtain d1 l1 r1' where a: "drawEdge nodes e r1 = (d1, l1, r1')"
    by (cases "drawEdge nodes e r1") auto
  obtain d2 l2 r2' where b: "drawEdge nodes e r2 = (d2, l2, r2')"
    by (cases "drawEdge nodes e r2") auto
  have "d1 = d2" using drawEdge_fst_indep [of nodes e r1 r2] a b by simp
  moreover have "fst (drawEdges nodes es r1') = fst (drawEdges nodes es r2')" by (rule Cons.IH)
  ultimately show ?case using a b by (simp add: split_def)
qed

theorem render_deterministic_witness:
  "fst (drawEdges [box_A, box_C] [edge_AC, edge_AC_same] (\<lambda>k. 0))
     = fst (drawEdges [box_A, box_C] [edge_AC, edge_AC_same] (\<lambda>k. 9 / 10))"
  by (rule render_deterministic)

lemma sqrt_250000: "sqrt 250000 = 500"
  by (rule real_sqrt_unique) simp_all

text \<open>
  Claim C2, evaluated on the edge from \<open>A\<close> to \<open>C\<close> with sides \<open>(right, left)\<close>, which
  is drawn as a cubic curve: the displacement \<open>min(distance * 0.4, 60)\<close> times the random
  factor, with the random direction, is computed and printed as the central control
  point, and the path is the curve through the two anchors and the two perpendicular
  control points for every value of the random source. The displacement is not part of
  what is drawn.
\<close>

theorem displacement_not_drawn:
  "drawEdge [box_A, box_C] edge_AC r =
     (Some \<lparr>drawn_path = Cubic (100, 25) (180, 25) (320, 425) (400, 425),
            labelX = 250, labelY = 225, label_text = None\<rparr>,
      Some (250 + (if r (Suc 0) > 0.5 then 1 else - 1) * (60 * (0.8 + r 0 * 0.4)), 225),
      \<lambda>k. r (Suc (Suc k)))"
  by (simp add: drawEdge_def box_A_def box_C_def edge_AC_def or_default_def calculateAnchorPoint_def
      Let_def Math_random_def choose_direction_def random_direction_def
      createPerpendicularControlPoints_def control_of_def adjustArrowEndPoint_def truthy_label_def
      sqrt_250000)

lemma draw_AC_same:
  "fst (drawEdge [box_A, box_C] edge_AC_same r) =
     Some \<lparr>drawn_path = Cubic (100, 25) (180, 25) (640, 425) (560, 425),
            labelX = 390, labelY = 225, label_text = None\<rparr>"
  by (simp add: drawEdge_def box_A_def box_C_def edge_AC_same_def or_default_def calculateAnchorPoint_def
      Let_def Math_random_def choose_direction_def random_direction_def
      createPerpendicularControlPoints_def control_of_def adjustArrowEndPoint_def truthy_label_def)

text \<open>
  Claim C9. For every edge drawn as a cubic curve, the label position is the point at
  parameter \<open>1/2\<close> of the cubic Bezier curve through the four points of the drawn path,
  in the Bernstein basis. The witness is a same-side edge, where this point \<open>(390, 225)\<close>
  differs from the midpoint \<open>(330, 225)\<close> of the chord.
\<close>

theorem label_on_curve:
  assumes "fst (drawEdge nodes e r) = Some d" and "drawn_path d = Cubic p0 p1 p2 p3"
  shows "bezier_point (drawn_path d) (1 / 2) = Some (labelX d, labelY d)"
  using assms unfolding drawEdge_def Let_def split_def
  apply (simp only: if_distrib [of fst] option.case_distrib [of fst] fst_conv)
  apply (auto split: option.splits if_splits
      simp: bezier_point_def bernstein_def power2_eq_square power3_eq_cube adjustArrowEndPoint_def)
  done

theorem label_on_curve_witness:
  "fst (drawEdge [box_A, box_C] edge_AC_same (\<lambda>k. 0))
     = Some \<lparr>drawn_path = Cubic (100, 25) (180, 25) (640, 425) (560, 425),
             labelX = 390, labelY = 225, label_text = None\<rparr>
   \<and> bezier_point (Cubic (100, 25) (180, 25) (640, 425) (560, 425)) (1 / 2) = Some (390, 225)
   \<and> chord_midpoint (100, 25) (560, 425) = (330, 225)"
proof -
  let ?d = "\<lparr>drawn_path = Cubic (100, 25) (180, 25) (640, 425) (560, 425),
             labelX = 390, labelY = 225, label_text = None\<rparr>"
  have a: "fst (drawEdge [box_A, box_C] edge_AC_same (\<lambda>k. 0)) = Some ?d" by (rule draw_AC_same)
  have b: "drawn_path ?d = Cubic (100, 25) (180, 25) (640, 425) (560, 425)" by simp
  have c: "bezier_point (drawn_path ?d) (1 / 2) = Some (labelX ?d, labelY ?d)"
    by (rule label_on_curve [OF a b])
  have d: "chord_midpoint (100, 25) (560, 425) = (330, 225)" by (simp add: chord_midpoint_def)
  from a c d show ?thesis by simp
qed

section \<open>Properties of the markup renderer\<close>

text \<open>A substitution passes over a text in which no match can begin, and so does the
  splitting at a separator.\<close>

lemma startswith_could_start: "startswith (s @ ys) p \<Longrightarrow> could_start p s"
  unfolding startswith_def
  by (induction p s rule: could_start.induct) auto

lemma re_sub_skip:
  assumes none: "\<And>s. \<not> startswith s p \<Longrightarrow> m s = None"
  shows "safe_for p xs \<Longrightarrow> re_sub m (xs @ ys) = xs @ re_sub m ys"
proof (induction xs)
  case Nil
  show ?case by simp
next
  case (Cons c cs)
  from Cons.prems have a: "\<not> could_start p (c # cs)" and b: "safe_for p cs" by simp_all
  from a have "\<not> startswith ((c # cs) @ ys) p" using startswith_could_start by blast
  then have "m (c # cs @ ys) = None" using none by simp
  then show ?case using Cons.IH [OF b] by simp
qed

lemma split_from_skip:
  "safe_for sep xs \<Longrightarrow> split_from sep cur (xs @ ys) = split_from sep (cur @ xs) ys"
proof (induction xs arbitrary: cur)
  case Nil
  show ?case by simp
next
  case (Cons c cs)
  from Cons.prems have a: "\<not> could_start sep (c # cs)" and b: "safe_for sep cs" by simp_all
  from a have "\<not> startswith ((c # cs) @ ys) sep" using startswith_could_start by blast
  then have "\<not> startswith (c # cs @ ys) sep" by simp
  then show ?case using Cons.IH [OF b, of "cur @ [c]"] by simp
qed

lemma startswith_append: "startswith s (p @ q) \<Longrightarrow> startswith s p"
  unfolding startswith_def
  by (metis append_eq_conv_conj length_append take_take min.absorb1 le_add1 take_append)

lemma skip_bold: "safe_for ''**'' xs \<Longrightarrow> re_sub m_bold (xs @ ys) = xs @ re_sub m_bold ys"
  by (rule re_sub_skip [where p = "''**''"]) (simp_all add: m_bold_def)

lemma skip_italic: "safe_for ''*'' xs \<Longrightarrow> re_sub m_italic (xs @ ys) = xs @ re_sub m_italic ys"
  by (rule re_sub_skip [where p = "''*''"]) (simp_all add: m_italic_def)

lemma skip_link: "safe_for ''['' xs \<Longrightarrow> re_sub m_link (xs @ ys) = xs @ re_sub m_link ys"
  by (rule re_sub_skip [where p = "''[''"]) (simp_all add: m_link_def)

lemma skip_parbreak: "safe_for [NL] xs \<Longrightarrow> re_sub m_parbreak (xs @ ys) = xs @ re_sub m_parbreak ys"
  by (rule re_sub_skip [where p = "[NL]"]) (simp_all add: m_parbreak_def)

lemma skip_newline: "safe_for [NL] xs \<Longrightarrow> re_sub m_newline (xs @ ys) = xs @ re_sub m_newline ys"
  by (rule re_sub_skip [where p = "[NL]"]) (simp_all add: m_newline_def)

lemma skip_empty_par: "safe_for ''<p>'' xs \<Longrightarrow> re_sub m_empty_par (xs @ ys) = xs @ re_sub m_empty_par ys"
  by (rule re_sub_skip [where p = "''<p>''"]) (simp_all add: m_empty_par_def)

lemma skip_li_ordered: "safe_for ''<p>'' xs \<Longrightarrow> re_sub m_li_ordered (xs @ ys) = xs @ re_sub m_li_ordered ys"
  by (rule re_sub_skip [where p = "''<p>''"]) (simp_all add: m_li_ordered_def)

lemma skip_li_bullet: "safe_for ''<p>'' xs \<Longrightarrow> re_sub m_li_bullet (xs @ ys) = xs @ re_sub m_li_bullet ys"
proof (rule re_sub_skip [where p = "''<p>''"])
  fix s assume n: "\<not> startswith s ''<p>''"
  have "\<not> startswith s ''<p>-''" using n startswith_append [of s "''<p>''" "''-''"] by auto
  moreover have "\<not> startswith s ''<p>*''" using n startswith_append [of s "''<p>''" "''*''"] by auto
  ultimately show "m_li_bullet s = None" by (simp add: m_li_bullet_def)
qed

text \<open>The stages of the renderer on the code block of the example.\<close>

lemma stage_headings:
  "py_join [NL] (heading_pass False (py_split (escape_angle code_example) [NL])) = code_example"
  by code_simp

lemma stage_has_code: "find_sub fence code_example \<noteq> None"
  by code_simp

lemma stage_clean:
  "clean_content_after_code code_example
     = fence @ [NL] @ ''print('' @ dq @ ''**not bold**'' @ dq @ '')'' @ [NL, NL] @ fence"
  by code_simp

lemma stage_fence:
  "re_sub (m_fence f) (fence @ [NL] @ ''print('' @ dq @ ''**not bold**'' @ dq @ '')'' @ [NL, NL] @ fence)
     = f ([NL] @ ''print('' @ dq @ ''**not bold**'' @ dq @ '')'' @ [NL, NL])"
  apply code_simp
  apply simp
  done

lemma stage_split:
  "py_split ([NL] @ ''print('' @ dq @ ''**not bold**'' @ dq @ '')'' @ [NL, NL]) [NL]
     = [[], ''print('' @ dq @ ''**not bold**'' @ dq @ '')'', [], []]"
  by code_simp

lemma stage_button:
  "add_copy_button ([NL] @ ''print('' @ dq @ ''**not bold**'' @ dq @ '')'' @ [NL, NL])
     = code_block_open @ ''print('' @ dq @ ''**not bold**'' @ dq @ '')'' @ [NL, NL] @ code_block_close"
  unfolding add_copy_button_def stage_split Let_def by simp

lemma dropWhile_hd: "xs \<noteq> [] \<Longrightarrow> \<not> P (hd xs) \<Longrightarrow> dropWhile P xs = xs"
  by (cases xs) auto

lemma strip_noop:
  assumes "s \<noteq> []" and "\<not> is_space (hd s)" and "\<not> is_space (last s)"
  shows "strip s = s"
proof -
  have a: "dropWhile is_space s = s" using assms(1,2) by (rule dropWhile_hd)
  have "rev s \<noteq> []" using assms(1) by simp
  moreover have "\<not> is_space (hd (rev s))" using assms(1,3) by (simp add: hd_rev)
  ultimately have "dropWhile is_space (rev s) = rev s" by (rule dropWhile_hd)
  with a show ?thesis by (simp add: strip_def)
qed

lemma split_open:
  "code_block_open = ''<pre'' @ drop 4 code_block_open"
  by (simp add: code_block_open_def)

lemmas open_defs = code_block_open_def dq_def sq_def glyph_copy_def glyph_done_def glyph_failed_def e_acute_def

lemma safe_open:
  "safe_for ''**'' (drop 4 code_block_open)"
  "safe_for ''*'' (drop 4 code_block_open)"
  "safe_for ''['' (drop 4 code_block_open)"
  "safe_for [NL] (drop 4 code_block_open)"
  "safe_for ''<p>'' (drop 4 code_block_open)"
  "safe_for ''<br>'' (drop 4 code_block_open)"
  by (simp_all add: open_defs NL_def)

text \<open>
  Claim C1, evaluated on the specification's example, a code block with the language
  line \<open>python\<close> and the line \<open>print("**not bold**")\<close>: the language line is dropped,
  but the rendered body of the code region is not the original line. The bold
  substitution is applied inside the region, and the two line breaks the two fence
  substitutions leave behind the line become a paragraph break inside it.
\<close>

theorem code_block_rewritten:
  "render_content code_example
     = (''<p>'' @ code_block_open @ ''print('' @ dq @ ''<strong>not bold</strong>'' @ dq
          @ '')</p><p>'' @ code_block_close @ ''</p>'', True)"
proof -
  define t where "t = drop 4 code_block_open"
  have T: "code_block_open = ''<pre'' @ t"
    unfolding t_def by (rule split_open)
  have s1: "safe_for ''**'' t" and s2: "safe_for ''*'' t" and s3: "safe_for ''['' t"
    and s4: "safe_for [NL] t" and s5: "safe_for ''<p>'' t" and s6: "safe_for ''<br>'' t"
    unfolding t_def by (rule safe_open)+
  let ?P = "''print('' @ dq @ ''**not bold**'' @ dq @ '')''"
  let ?Q = "''print('' @ dq @ ''<strong>not bold</strong>'' @ dq @ '')''"
  let ?c0 = "''<pre'' @ t @ ?P @ [NL, NL] @ ''</div></pre>''"
  let ?c1 = "''<pre'' @ t @ ?Q @ [NL, NL] @ ''</div></pre>''"
  let ?c4 = "''<pre'' @ t @ ?Q @ ''</p><p></div></pre>''"
  let ?w = "''<p>'' @ ?c4 @ ''</p>''"
  have c0: "re_sub (m_fence add_copy_button) (clean_content_after_code code_example) = ?c0"
    by (simp only: stage_clean stage_fence stage_button T code_block_close_def append_assoc)
  have c1: "re_sub m_bold ?c0 = ?c1"
    by (simp add: skip_bold [OF s1] m_bold_def startswith_def Let_def dq_def NL_def)
  have c2: "re_sub m_italic ?c1 = ?c1"
    by (simp add: skip_italic [OF s2] m_italic_def startswith_def Let_def dq_def NL_def)
  have c3: "re_sub m_link ?c1 = ?c1"
    by (simp add: skip_link [OF s3] m_link_def startswith_def Let_def dq_def NL_def)
  have c4: "re_sub m_parbreak ?c1 = ?c4"
    using s4 by (simp add: skip_parbreak m_parbreak_def startswith_def Let_def dq_def NL_def is_space_def)
  have c5: "re_sub m_empty_par ?w = ?w"
    by (simp add: skip_empty_par [OF s5] m_empty_par_def startswith_def Let_def dq_def is_space_def)
  have c6: "re_sub m_newline ?w = ?w"
    using s4 by (simp add: skip_newline m_newline_def startswith_def dq_def NL_def)
  have c7: "re_sub m_li_ordered ?w = ?w"
    by (simp add: skip_li_ordered [OF s5] m_li_ordered_def startswith_def Let_def dq_def is_digit_def)
  have c8: "re_sub m_li_bullet ?w = ?w"
    by (simp add: skip_li_bullet [OF s5] m_li_bullet_def startswith_def Let_def dq_def)
  have c9: "py_split ?w ''<br>'' = [?w]"
    by (simp add: py_split_def split_from_skip [OF s6] startswith_def dq_def)
  have "strip ?w = ?w"
    by (rule strip_noop) (simp_all add: is_space_def)
  then have c10: "list_pass False ''None'' [?w] = [?w]"
    by (simp add: startswith_def)
  have c11: "py_join ''<br>'' [?w] = ?w"
    by simp
  have "render_content code_example = (?w, True)"
    unfolding render_content_def Let_def
    by (simp only: stage_headings stage_has_code not_False_eq_True if_True c0 c1 c2 c3 c4 c5 c6 c7 c8 c9 c10 c11)
  also have "?w = ''<p>'' @ code_block_open @ ''print('' @ dq @ ''<strong>not bold</strong>'' @ dq
          @ '')</p><p>'' @ code_block_close @ ''</p>''"
    by (simp add: T code_block_close_def)
  finally show ?thesis .
qed

text \<open>
  Claim C4, evaluated on the three bullet lines followed by a blank line: the output has
  one unordered list, opened before the first line and closed after it, with one list
  item that is opened at \<open>a\<close> and closed after \<open>c\<close>; the second and third line are
  not list items.
\<close>

theorem bullets_not_grouped:
  "render_content list_example = (''<ul><br><li>a<br></ul><br>- b<br>- c</li>'', False)"
  by code_simp

text \<open>With a blank line between the bullets every bullet is a paragraph, and the three
  items are in one list.\<close>

lemma spaced_bullets_grouped:
  "render_content spaced_list_example = (''<ul><br><li>a</li><li>b</li><li>c</li><br></ul>'', False)"
  by code_simp

end
